theory Spec2Isabelle
  imports Main "HOL-Library.Word"
begin

unbundle bit_operations_syntax

section \<open>Kernel constants the driver uses\<close>

text \<open>
  Modelled from the spec: the errno macros of linux/errno.h are not under src/. The
  spec's error taxonomy keeps the retryable DeferProbe apart from AllocationFailure and
  from the invalid-argument errors; the numbers are the kernel's. The driver returns
  them negated, as \<open>- EINVAL\<close>.
\<close>

definition ENOMEM :: int where "ENOMEM = 12"
definition EBUSY :: int where "EBUSY = 16"
definition ENODEV :: int where "ENODEV = 19"
definition EINVAL :: int where "EINVAL = 22"
definition EPROBE_DEFER :: int where "EPROBE_DEFER = 517"

text \<open>
  Modelled from the spec: the GPIOF flag macros of linux/gpio.h are not under src/. The
  GPIO collaborator takes a direction and an initial level: bit 0 is the direction
  (set for input), bit 1 the initial output level (set for high).
\<close>

type_synonym gpio_flags = "32 word"

definition GPIOF_DIR_OUT :: gpio_flags where "GPIOF_DIR_OUT = push_bit 0 0"
definition GPIOF_DIR_IN :: gpio_flags where "GPIOF_DIR_IN = push_bit 0 1"
definition GPIOF_INIT_LOW :: gpio_flags where "GPIOF_INIT_LOW = push_bit 1 0"
definition GPIOF_INIT_HIGH :: gpio_flags where "GPIOF_INIT_HIGH = push_bit 1 1"
definition GPIOF_OUT_INIT_LOW :: gpio_flags where
  "GPIOF_OUT_INIT_LOW = GPIOF_DIR_OUT OR GPIOF_INIT_LOW"
definition GPIOF_OUT_INIT_HIGH :: gpio_flags where
  "GPIOF_OUT_INIT_HIGH = GPIOF_DIR_OUT OR GPIOF_INIT_HIGH"

section \<open>Data model\<close>

text \<open>
  A string obtained from \<open>kstrdup\<close> is a pointer: \<open>None\<close> is NULL, \<open>Some (a, s)\<close> is the
  block at address \<open>a\<close> holding the (never modified) text \<open>s\<close>.
\<close>

type_synonym kstr = "(nat \<times> string) option"

text \<open>The constraints block of \<open>struct regulator_init_data\<close>, the fields the driver reads.\<close>

record regulator_init_data =
  constraints_name :: "string option"
  min_uV :: int
  max_uV :: int
  boot_on :: bool
  apply_uV :: bool

text \<open>\<open>struct mv_vbus_config\<close> (lines 43-52).\<close>

record mv_vbus_config =
  supply_name :: "string option"
  input_supply :: "string option"
  microvolts :: int
  gpio :: int
  startup_delay :: "32 word"
  enable_high :: bool
  enabled_at_boot :: bool
  init_data :: "regulator_init_data option"

text \<open>The fields of \<open>struct regulator_desc\<close> that the driver writes.\<close>

record regulator_desc =
  desc_name :: kstr
  desc_supply_name :: kstr
  enable_time :: "32 word"
  n_voltages :: "32 word"

text \<open>
  \<open>struct mv_vbus_data\<close> (lines 54-60). \<open>data_dev\<close> is the handle of the registered
  regulator device, \<open>None\<close> for NULL.
\<close>

record mv_vbus_data =
  desc :: regulator_desc
  data_dev :: "nat option"
  data_gpio :: int
  ena_gpio_invert :: bool
  data_microvolts :: int

text \<open>What the driver reads of a \<open>struct regulator_dev\<close>: its driver data pointer.\<close>

record regulator_dev =
  rdev_id :: nat
  reg_data :: "mv_vbus_data option"

text \<open>
  The device-tree node, as the OF accessors report it: the result of
  \<open>of_get_regulator_init_data\<close> (NULL as \<open>None\<close>), of \<open>of_get_named_gpio\<close> for "gpio",
  the "startup-delay-us" cell after \<open>be32_to_cpu\<close>, and whether "enable-active-high" is there.
\<close>

record device_node =
  of_regulator_init_data :: "regulator_init_data option"
  of_named_gpio :: int
  of_startup_delay_us :: "32 word option"
  of_enable_active_high :: bool

record platform_device =
  of_node :: "device_node option"
  platform_data :: "mv_vbus_config option"
  driver_data :: "mv_vbus_data option"

text \<open>The \<open>struct regulator_config\<close> local of probe, zero-initialised by \<open>= { }\<close>.\<close>

record regulator_config =
  cfg_ena_gpio :: int
  cfg_ena_gpio_invert :: bool
  cfg_ena_gpio_flags :: gpio_flags
  cfg_init_data :: "regulator_init_data option"
  cfg_driver_data :: "mv_vbus_data option"
  cfg_of_node :: "device_node option"

section \<open>The kernel around the driver\<close>

datatype event =
    EvGpioRequest int bool
  | EvGpioSet int bool
  | EvGpioFree int
  | EvRegister nat
  | EvUnregister nat
  | EvKfree nat

text \<open>
  The state of the collaborators: the allocator (which blocks are live, which of the coming
  allocations fail), the GPIO subsystem (owner label and output level of each pin, the error
  it answers the next request with, 0 for none, the platform's number of GPIOs), the
  regulator framework (the registered devices, and its answer to the next registration: an
  error code, or any other number when it will register), and the log of what was done,
  oldest first.
\<close>

record world =
  arch_nr_gpios :: int
  alloc_script :: "bool list"
  live :: "nat list"
  devres :: nat
  bad_frees :: "nat list"
  gpio_owner :: "int \<Rightarrow> string option"
  gpio_level :: "int \<Rightarrow> bool option"
  gpio_request_err :: int
  register_err :: int
  registered :: "regulator_dev list"
  trace :: "event list"

text \<open>An address not in use: one more than the sum of those that are.\<close>

definition fresh :: "nat list \<Rightarrow> nat" where
  "fresh xs = Suc (sum_list xs)"

text \<open>
  Modelled from the spec: the allocator (\<open>devm_kzalloc\<close>, \<open>kstrdup\<close>, \<open>kfree\<close>) is not under
  src/. Every allocation may fail (AllocationFailure); \<open>alloc_script\<close> lists the outcome
  of the coming allocations, \<open>True\<close> for success, and an exhausted script succeeds.
  A device-managed block is released by the driver core, not by the driver; \<open>kstrdup\<close> of
  NULL is NULL; \<open>kfree\<close> of NULL does nothing, and \<open>kfree\<close> of a block that is not live
  is recorded in \<open>bad_frees\<close>.
\<close>

definition alloc_succeeds :: "world \<Rightarrow> bool" where
  "alloc_succeeds w = (case alloc_script w of [] \<Rightarrow> True | b # _ \<Rightarrow> b)"

definition alloc_step :: "world \<Rightarrow> world" where
  "alloc_step w = w\<lparr>alloc_script := tl (alloc_script w)\<rparr>"

definition devm_kzalloc :: "world \<Rightarrow> bool \<times> world" where
  "devm_kzalloc w =
     (if alloc_succeeds w then (True, (alloc_step w)\<lparr>devres := Suc (devres w)\<rparr>)
      else (False, alloc_step w))"

definition kstrdup :: "world \<Rightarrow> string option \<Rightarrow> kstr \<times> world" where
  "kstrdup w s =
     (case s of
        None \<Rightarrow> (None, w)
      | Some str \<Rightarrow>
          if alloc_succeeds w
          then (Some (fresh (live w), str), (alloc_step w)\<lparr>live := fresh (live w) # live w\<rparr>)
          else (None, alloc_step w))"

definition kfree :: "world \<Rightarrow> kstr \<Rightarrow> world" where
  "kfree w p =
     (case p of
        None \<Rightarrow> w
      | Some (a, s) \<Rightarrow>
          if a \<in> set (live w)
          then w\<lparr>live := removeAll a (live w), trace := trace w @ [EvKfree a]\<rparr>
          else w\<lparr>bad_frees := a # bad_frees w, trace := trace w @ [EvKfree a]\<rparr>)"

text \<open>
  Modelled from the spec: \<open>gpio_is_valid\<close>, \<open>gpio_request_one\<close> and
  \<open>gpio_set_value_cansleep\<close> of the GPIO subsystem are not under src/. The validity check
  accepts the numbers from 0 below the platform's GPIO count (the macro ARCH_NR_GPIOS,
  a parameter here). A request takes exclusive ownership of the pin as an output driven
  to the initial level of the flags, and fails when the pin is already owned or when the
  subsystem reports an error; a set drives the pin; a release (\<open>gpio_free\<close>) gives the pin
  up. The driver calls the first three; it has no call of \<open>gpio_free\<close>.
\<close>

definition gpio_is_valid :: "world \<Rightarrow> int \<Rightarrow> bool" where
  "gpio_is_valid w number = (0 \<le> number \<and> number < arch_nr_gpios w)"

definition gpio_init_level :: "gpio_flags \<Rightarrow> bool option" where
  "gpio_init_level flags =
     (if flags AND GPIOF_DIR_IN \<noteq> 0 then None else Some (flags AND GPIOF_INIT_HIGH \<noteq> 0))"

definition gpio_request_one :: "world \<Rightarrow> int \<Rightarrow> gpio_flags \<Rightarrow> string \<Rightarrow> int \<times> world" where
  "gpio_request_one w pin flags label =
     (if gpio_owner w pin \<noteq> None then (- EBUSY, w)
      else if gpio_request_err w \<noteq> 0 then (gpio_request_err w, w)
      else (0, w\<lparr>gpio_owner := (gpio_owner w)(pin \<mapsto> label),
                 gpio_level := (gpio_level w)(pin := gpio_init_level flags),
                 trace := trace w @
                   (case gpio_init_level flags of None \<Rightarrow> [] | Some l \<Rightarrow> [EvGpioRequest pin l])\<rparr>))"

definition gpio_set_value_cansleep :: "world \<Rightarrow> int \<Rightarrow> 32 word \<Rightarrow> world" where
  "gpio_set_value_cansleep w pin val =
     w\<lparr>gpio_level := (gpio_level w)(pin \<mapsto> val \<noteq> 0),
       trace := trace w @ [EvGpioSet pin (val \<noteq> 0)]\<rparr>"

definition gpio_free :: "world \<Rightarrow> int \<Rightarrow> world" where
  "gpio_free w pin =
     w\<lparr>gpio_owner := (gpio_owner w)(pin := None), trace := trace w @ [EvGpioFree pin]\<rparr>"

text \<open>
  Modelled from the spec: \<open>regulator_register\<close> and \<open>regulator_unregister\<close> of the host
  framework, and the \<open>IS_ERR\<close> test of linux/err.h, are not under src/. Registration
  either answers an error code (RegistrationFailure), encoded as a pointer that \<open>IS_ERR\<close>
  recognises (the codes from \<open>- MAX_ERRNO\<close> to \<open>- 1\<close>), or makes a device whose driver data
  is the one passed in the configuration; unregistration removes the device and cannot fail.
\<close>

definition MAX_ERRNO :: int where "MAX_ERRNO = 4095"

definition IS_ERR_VALUE :: "int \<Rightarrow> bool" where
  "IS_ERR_VALUE x = (- MAX_ERRNO \<le> x \<and> x < 0)"

definition regulator_register ::
  "world \<Rightarrow> regulator_desc \<Rightarrow> regulator_config \<Rightarrow> (int + nat) \<times> world" where
  "regulator_register w dsc cfg =
     (if IS_ERR_VALUE (register_err w) then (Inl (register_err w), w)
      else
        (Inr (fresh (map rdev_id (registered w))),
         w\<lparr>registered :=
              \<lparr>rdev_id = fresh (map rdev_id (registered w)), reg_data = cfg_driver_data cfg\<rparr>
              # registered w,
           trace := trace w @ [EvRegister (fresh (map rdev_id (registered w)))]\<rparr>))"

definition regulator_unregister :: "world \<Rightarrow> nat option \<Rightarrow> world" where
  "regulator_unregister w rdev =
     (case rdev of
        None \<Rightarrow> w
      | Some h \<Rightarrow> w\<lparr>registered := filter (\<lambda>r. rdev_id r \<noteq> h) (registered w),
                     trace := trace w @ [EvUnregister h]\<rparr>)"

section \<open>The driver\<close>

subsection \<open>\<open>of_get_mv_vbus_config\<close> (lines 70-114)\<close>

definition zero_config :: mv_vbus_config where
  "zero_config =
     \<lparr>supply_name = None, input_supply = None, microvolts = 0, gpio = 0, startup_delay = 0,
      enable_high = False, enabled_at_boot = False, init_data = None\<rparr>"

definition of_get_mv_vbus_config ::
  "world \<Rightarrow> device_node \<Rightarrow> (int + mv_vbus_config) \<times> world" where
  "of_get_mv_vbus_config w np =
     (case devm_kzalloc w of
        (False, w1) \<Rightarrow> (Inl (- ENOMEM), w1)
      | (True, w1) \<Rightarrow>
          (case of_regulator_init_data np of
             None \<Rightarrow> (Inl (- EINVAL), w1)
           | Some idata0 \<Rightarrow>
               let idata = idata0\<lparr>apply_uV := False\<rparr>;
                   config0 = zero_config\<lparr>init_data := Some idata,
                                          supply_name := constraints_name idata\<rparr>
               in if min_uV idata = max_uV idata then
                    let config1 = config0\<lparr>microvolts := min_uV idata\<rparr>;
                        config2 = (if boot_on idata then config1\<lparr>enabled_at_boot := True\<rparr>
                                   else config1);
                        config3 = config2\<lparr>gpio := of_named_gpio np\<rparr>
                    in if gpio config3 = - ENODEV \<or> gpio config3 = - EPROBE_DEFER
                       then (Inl (- EPROBE_DEFER), w1)
                       else
                         let config4 = (case of_startup_delay_us np of
                                          None \<Rightarrow> config3
                                        | Some delay \<Rightarrow> config3\<lparr>startup_delay := delay\<rparr>);
                             config5 = (if of_enable_active_high np
                                        then config4\<lparr>enable_high := True\<rparr> else config4)
                         in (Inr config5, w1)
                  else (Inl (- EINVAL), w1)))"

subsection \<open>The capability table (lines 116-173)\<close>

text \<open>
  \<open>rdev_get_drvdata\<close> answers the device's \<open>reg_data\<close>. The two voltage queries
  dereference it unchecked: on a NULL pointer they fault, which is the result \<open>None\<close>.
  \<open>mv_vbus_get_voltage\<close> reads through it at once; \<open>mv_vbus_list_voltage\<close> tests the
  selector first (line 131) and reads through it only for selector 0 (line 134).
\<close>

definition mv_vbus_get_voltage :: "regulator_dev \<Rightarrow> int option" where
  "mv_vbus_get_voltage dev =
     (case reg_data dev of
        None \<Rightarrow> None
      | Some data \<Rightarrow>
          Some (if data_microvolts data \<noteq> 0 then data_microvolts data else - EINVAL))"

definition mv_vbus_list_voltage :: "regulator_dev \<Rightarrow> 32 word \<Rightarrow> int option" where
  "mv_vbus_list_voltage dev selector =
     (if selector \<noteq> 0 then Some (- EINVAL)
      else (case reg_data dev of
              None \<Rightarrow> None
            | Some data \<Rightarrow> Some (data_microvolts data)))"

definition bool_to_uint :: "bool \<Rightarrow> 32 word" where
  "bool_to_uint b = (if b then 1 else 0)"

definition mv_vbus_gpio_set :: "world \<Rightarrow> regulator_dev \<Rightarrow> bool \<Rightarrow> int \<times> world" where
  "mv_vbus_gpio_set w rdev enable =
     (case reg_data rdev of
        None \<Rightarrow> (- EINVAL, w)
      | Some drvdata \<Rightarrow>
          let gpio_val = (if enable then bool_to_uint (\<not> ena_gpio_invert drvdata)
                          else bool_to_uint (ena_gpio_invert drvdata))
          in (0, gpio_set_value_cansleep w (data_gpio drvdata) gpio_val))"

definition mv_vbus_enable_supply :: "world \<Rightarrow> regulator_dev \<Rightarrow> int \<times> world" where
  "mv_vbus_enable_supply w rdev = mv_vbus_gpio_set w rdev True"

definition mv_vbus_disable_supply :: "world \<Rightarrow> regulator_dev \<Rightarrow> int \<times> world" where
  "mv_vbus_disable_supply w rdev = mv_vbus_gpio_set w rdev False"

definition mv_vbus_suspend_disable :: "world \<Rightarrow> regulator_dev \<Rightarrow> int \<times> world" where
  "mv_vbus_suspend_disable w rdev = mv_vbus_disable_supply w rdev"

text \<open>
  \<open>vbus_ops\<close>: the table the framework calls through. The voltage queries only read, so
  the world they leave is the one they found.
\<close>

datatype regulator_op = Enable | Disable | SetSuspendDisable | GetVoltage | ListVoltage "32 word"

definition vbus_ops :: "regulator_op \<Rightarrow> world \<Rightarrow> regulator_dev \<Rightarrow> (int \<times> world) option" where
  "vbus_ops opn w rdev =
     (case opn of
        Enable \<Rightarrow> Some (mv_vbus_enable_supply w rdev)
      | Disable \<Rightarrow> Some (mv_vbus_disable_supply w rdev)
      | SetSuspendDisable \<Rightarrow> Some (mv_vbus_suspend_disable w rdev)
      | GetVoltage \<Rightarrow> map_option (\<lambda>v. (v, w)) (mv_vbus_get_voltage rdev)
      | ListVoltage selector \<Rightarrow> map_option (\<lambda>v. (v, w)) (mv_vbus_list_voltage rdev selector))"

subsection \<open>\<open>mv_vbus_reg_probe\<close> (lines 175-290)\<close>

definition zero_data :: mv_vbus_data where
  "zero_data =
     \<lparr>desc = \<lparr>desc_name = None, desc_supply_name = None, enable_time = 0, n_voltages = 0\<rparr>,
      data_dev = None, data_gpio = 0, ena_gpio_invert = False, data_microvolts = 0\<rparr>"

definition zero_cfg :: regulator_config where
  "zero_cfg =
     \<lparr>cfg_ena_gpio = 0, cfg_ena_gpio_invert = False, cfg_ena_gpio_flags = 0,
      cfg_init_data = None, cfg_driver_data = None, cfg_of_node = None\<rparr>"

text \<open>The exit labels \<open>err_name\<close> and \<open>err_input\<close> (lines 284-289); \<open>err\<close> only returns.\<close>

definition err_name ::
  "world \<Rightarrow> platform_device \<Rightarrow> mv_vbus_data \<Rightarrow> int \<Rightarrow> int \<times> platform_device \<times> world" where
  "err_name w pdev drv ret = (ret, pdev, kfree w (desc_name (desc drv)))"

definition err_input ::
  "world \<Rightarrow> platform_device \<Rightarrow> mv_vbus_data \<Rightarrow> int \<Rightarrow> int \<times> platform_device \<times> world" where
  "err_input w pdev drv ret = err_name (kfree w (desc_supply_name (desc drv))) pdev drv ret"

text \<open>
  Lines 265-282: registration. The device made by the framework points at the driver
  data, so the store of the handle into \<open>drvdata->dev\<close> shows through its \<open>reg_data\<close>.
\<close>

definition set_reg_data :: "world \<Rightarrow> nat \<Rightarrow> mv_vbus_data \<Rightarrow> world" where
  "set_reg_data w h drv =
     w\<lparr>registered :=
         map (\<lambda>r. if rdev_id r = h then r\<lparr>reg_data := Some drv\<rparr> else r) (registered w)\<rparr>"

definition probe_register ::
  "world \<Rightarrow> platform_device \<Rightarrow> mv_vbus_config \<Rightarrow> mv_vbus_data \<Rightarrow> regulator_config
     \<Rightarrow> int \<times> platform_device \<times> world" where
  "probe_register w pdev config drv cfg =
     (let cfg1 = cfg\<lparr>cfg_init_data := init_data config, cfg_driver_data := Some drv,
                     cfg_of_node := of_node pdev\<rparr>
      in case regulator_register w (desc drv) cfg1 of
           (Inl ret, w1) \<Rightarrow> err_input w1 pdev drv ret
         | (Inr h, w1) \<Rightarrow>
             let drv1 = drv\<lparr>data_dev := Some h\<rparr>
             in (0, pdev\<lparr>driver_data := Some drv1\<rparr>, set_reg_data w1 h drv1))"

text \<open>Lines 229-263: the enable GPIO.\<close>

definition probe_ena_gpio_flags :: "mv_vbus_config \<Rightarrow> gpio_flags" where
  "probe_ena_gpio_flags config =
     cfg_ena_gpio_flags zero_cfg OR
       (if enabled_at_boot config
        then (if enable_high config then GPIOF_OUT_INIT_HIGH else GPIOF_OUT_INIT_LOW)
        else (if enable_high config then GPIOF_OUT_INIT_LOW else GPIOF_OUT_INIT_HIGH))"

definition probe_gpio ::
  "world \<Rightarrow> platform_device \<Rightarrow> mv_vbus_config \<Rightarrow> mv_vbus_data
     \<Rightarrow> int \<times> platform_device \<times> world" where
  "probe_gpio w pdev config drv =
     (if gpio_is_valid w (gpio config) then
        let cfg1 = zero_cfg\<lparr>cfg_ena_gpio_invert := \<not> enable_high config,
                            cfg_ena_gpio_flags := probe_ena_gpio_flags config\<rparr>
        in case gpio_request_one w (gpio config) (GPIOF_DIR_OUT OR cfg_ena_gpio_flags cfg1)
                  (case desc_name (desc drv) of None \<Rightarrow> [] | Some (a, s) \<Rightarrow> s) of
             (ret, w1) \<Rightarrow>
               if ret \<noteq> 0 then err_name w1 pdev drv ret
               else probe_register w1 pdev config
                      (drv\<lparr>data_gpio := gpio config,
                           ena_gpio_invert := cfg_ena_gpio_invert cfg1\<rparr>)
                      (cfg1\<lparr>cfg_ena_gpio := 0\<rparr>)
      else err_input w pdev drv (- EINVAL))"

text \<open>Lines 193-227: device data, the two names, the voltage.\<close>

definition probe_voltage ::
  "world \<Rightarrow> platform_device \<Rightarrow> mv_vbus_config \<Rightarrow> mv_vbus_data
     \<Rightarrow> int \<times> platform_device \<times> world" where
  "probe_voltage w pdev config drv =
     (let drv1 = (if microvolts config \<noteq> 0 then drv\<lparr>desc := (desc drv)\<lparr>n_voltages := 1\<rparr>\<rparr>
                  else drv);
          drv2 = drv1\<lparr>data_microvolts := microvolts config\<rparr>
      in probe_gpio w pdev config drv2)"

definition probe_data ::
  "world \<Rightarrow> platform_device \<Rightarrow> mv_vbus_config \<Rightarrow> int \<times> platform_device \<times> world" where
  "probe_data w pdev config =
     (case devm_kzalloc w of
        (False, w1) \<Rightarrow> (- ENOMEM, pdev, w1)
      | (True, w1) \<Rightarrow>
          (case kstrdup w1 (supply_name config) of
             (None, w2) \<Rightarrow> (- ENOMEM, pdev, w2)
           | (Some nm, w2) \<Rightarrow>
               let drv1 = zero_data\<lparr>desc := (desc zero_data)\<lparr>desc_name := Some nm,
                                       enable_time := startup_delay config\<rparr>\<rparr>
               in (case input_supply config of
                     None \<Rightarrow> probe_voltage w2 pdev config drv1
                   | Some s \<Rightarrow>
                       (case kstrdup w2 (Some s) of
                          (None, w3) \<Rightarrow> err_name w3 pdev drv1 (- ENOMEM)
                        | (Some sp, w3) \<Rightarrow>
                            probe_voltage w3 pdev config
                              (drv1\<lparr>desc := (desc drv1)\<lparr>desc_supply_name := Some sp\<rparr>\<rparr>)))))"

text \<open>Lines 182-191: where the configuration comes from; then the rest of probe.\<close>

definition mv_vbus_reg_probe ::
  "world \<Rightarrow> platform_device \<Rightarrow> int \<times> platform_device \<times> world" where
  "mv_vbus_reg_probe w pdev =
     (case of_node pdev of
        Some np \<Rightarrow>
          (case of_get_mv_vbus_config w np of
             (Inl e, w1) \<Rightarrow> (e, pdev, w1)
           | (Inr config, w1) \<Rightarrow> probe_data w1 pdev config)
      | None \<Rightarrow>
          (case platform_data pdev of
             None \<Rightarrow> (- ENOMEM, pdev, w)
           | Some config \<Rightarrow> probe_data w pdev config))"

subsection \<open>\<open>mv_vbus_reg_remove\<close> (lines 292-301)\<close>

text \<open>
  The driver data is dereferenced unchecked: with none stored, remove faults (\<open>None\<close>).
\<close>

definition mv_vbus_reg_remove :: "world \<Rightarrow> platform_device \<Rightarrow> (int \<times> world) option" where
  "mv_vbus_reg_remove w pdev =
     (case driver_data pdev of
        None \<Rightarrow> None
      | Some drv \<Rightarrow>
          let w1 = regulator_unregister w (data_dev drv);
              w2 = kfree w1 (desc_supply_name (desc drv));
              w3 = kfree w2 (desc_name (desc drv))
          in Some (0, w3))"

text \<open>
  The configuration probe works from, for stating properties: the one extracted from the
  device-tree node when there is a node, the platform data otherwise.
\<close>

definition probed_config :: "world \<Rightarrow> platform_device \<Rightarrow> mv_vbus_config option" where
  "probed_config w pdev =
     (case of_node pdev of
        Some np \<Rightarrow> (case fst (of_get_mv_vbus_config w np) of Inl e \<Rightarrow> None | Inr config \<Rightarrow> Some config)
      | None \<Rightarrow> platform_data pdev)"

text \<open>
  What probe has built when it reaches the enable GPIO, for stating properties: the driver
  data with the two duplicated names (the name at the first fresh address, the input supply,
  when there is one, at the next), the blocks that are live then, and the driver data that
  a successful probe stores.
\<close>

definition pre_data :: "world \<Rightarrow> mv_vbus_config \<Rightarrow> mv_vbus_data" where
  "pre_data w config =
     \<lparr>desc = \<lparr>desc_name = Some (fresh (live w), the (supply_name config)),
              desc_supply_name = (case input_supply config of None \<Rightarrow> None
                                   | Some s \<Rightarrow> Some (fresh (fresh (live w) # live w), s)),
              enable_time = startup_delay config,
              n_voltages = (if microvolts config \<noteq> 0 then 1 else 0)\<rparr>,
      data_dev = None, data_gpio = 0, ena_gpio_invert = False,
      data_microvolts = microvolts config\<rparr>"

definition strings_live :: "world \<Rightarrow> mv_vbus_config \<Rightarrow> nat list" where
  "strings_live w config =
     (case input_supply config of None \<Rightarrow> [] | Some s \<Rightarrow> [fresh (fresh (live w) # live w)])
       @ fresh (live w) # live w"

definition built_data :: "world \<Rightarrow> mv_vbus_config \<Rightarrow> mv_vbus_data" where
  "built_data w config =
     \<lparr>desc = \<lparr>desc_name = Some (fresh (live w), the (supply_name config)),
              desc_supply_name = (case input_supply config of None \<Rightarrow> None
                                   | Some s \<Rightarrow> Some (fresh (fresh (live w) # live w), s)),
              enable_time = startup_delay config,
              n_voltages = (if microvolts config \<noteq> 0 then 1 else 0)\<rparr>,
      data_dev = Some (fresh (map rdev_id (registered w))),
      data_gpio = gpio config,
      ena_gpio_invert = (\<not> enable_high config),
      data_microvolts = microvolts config\<rparr>"

text \<open>The table of the spec's section 4.2, row by row.\<close>

fun spec_initial_level :: "bool \<Rightarrow> bool \<Rightarrow> bool" where
  "spec_initial_level True True = True"
| "spec_initial_level True False = False"
| "spec_initial_level False True = False"
| "spec_initial_level False False = True"

section \<open>Example inputs\<close>

text \<open>
  A quiet kernel with 256 GPIOs, and the rail of the spec's end-to-end example: "vbus",
  5 V, pin 42, active high, off at boot; once as platform data, once as a device-tree node.
\<close>

definition world0 :: world where
  "world0 =
     \<lparr>arch_nr_gpios = 256, alloc_script = [], live = [], devres = 0, bad_frees = [],
      gpio_owner = (\<lambda>pin. None), gpio_level = (\<lambda>pin. None), gpio_request_err = 0,
      register_err = 0, registered = [], trace = []\<rparr>"

definition vbus_config :: mv_vbus_config where
  "vbus_config =
     \<lparr>supply_name = Some ''vbus'', input_supply = None, microvolts = 5000000, gpio = 42,
      startup_delay = 0, enable_high = True, enabled_at_boot = False, init_data = None\<rparr>"

definition vbus_pdev :: platform_device where
  "vbus_pdev = \<lparr>of_node = None, platform_data = Some vbus_config, driver_data = None\<rparr>"

definition vbus_init_data :: regulator_init_data where
  "vbus_init_data =
     \<lparr>constraints_name = Some ''vbus'', min_uV = 5000000, max_uV = 5000000, boot_on = False,
      apply_uV = True\<rparr>"

definition vbus_node :: device_node where
  "vbus_node =
     \<lparr>of_regulator_init_data = Some vbus_init_data, of_named_gpio = 42,
      of_startup_delay_us = None, of_enable_active_high = True\<rparr>"

definition vbus_of_pdev :: platform_device where
  "vbus_of_pdev = \<lparr>of_node = Some vbus_node, platform_data = None, driver_data = None\<rparr>"

text \<open>
  What probing and then removing that rail leaves; the same rail with an input supply "vin";
  a node whose fixed voltage is 0; platform data whose constraints span a range; a node
  whose GPIO is not ready yet.
\<close>

definition vbus_data :: mv_vbus_data where
  "vbus_data =
     \<lparr>desc = \<lparr>desc_name = Some (1, ''vbus''), desc_supply_name = None, enable_time = 0,
              n_voltages = 1\<rparr>,
      data_dev = Some 1, data_gpio = 42, ena_gpio_invert = False, data_microvolts = 5000000\<rparr>"

definition vbus_live_pdev :: platform_device where
  "vbus_live_pdev = vbus_pdev\<lparr>driver_data := Some vbus_data\<rparr>"

definition vbus_live_world :: world where
  "vbus_live_world =
     world0\<lparr>devres := 1, live := [1],
       gpio_owner := (\<lambda>pin. None)(42 \<mapsto> ''vbus''),
       gpio_level := (\<lambda>pin. None)(42 \<mapsto> False),
       registered := [\<lparr>rdev_id = 1, reg_data = Some vbus_data\<rparr>],
       trace := [EvGpioRequest 42 False, EvRegister 1]\<rparr>"

definition vbus_removed_world :: world where
  "vbus_removed_world =
     vbus_live_world\<lparr>live := [], registered := [],
       trace := [EvGpioRequest 42 False, EvRegister 1, EvUnregister 1, EvKfree 1]\<rparr>"

definition vin_pdev :: platform_device where
  "vin_pdev = vbus_pdev\<lparr>platform_data := Some (vbus_config\<lparr>input_supply := Some ''vin''\<rparr>)\<rparr>"

definition zero_volt_node :: device_node where
  "zero_volt_node =
     vbus_node\<lparr>of_regulator_init_data := Some (vbus_init_data\<lparr>min_uV := 0, max_uV := 0\<rparr>)\<rparr>"

definition zero_volt_pdev :: platform_device where
  "zero_volt_pdev = vbus_of_pdev\<lparr>of_node := Some zero_volt_node\<rparr>"

definition ranged_pdev :: platform_device where
  "ranged_pdev =
     vbus_pdev\<lparr>platform_data :=
       Some (vbus_config\<lparr>init_data := Some (vbus_init_data\<lparr>min_uV := 0, max_uV := 5000000\<rparr>)\<rparr>)\<rparr>"

definition defer_pdev :: platform_device where
  "defer_pdev = vbus_of_pdev\<lparr>of_node := Some (vbus_node\<lparr>of_named_gpio := - EPROBE_DEFER\<rparr>)\<rparr>"

text \<open>
  The "vbus" rail with each of the four pairs of boot state and polarity; and a later state
  of the kernel, after the rail was enabled and another regulator was registered.
\<close>

definition table_pdev :: "bool \<Rightarrow> bool \<Rightarrow> platform_device" where
  "table_pdev boot high =
     vbus_pdev\<lparr>platform_data := Some (vbus_config\<lparr>enabled_at_boot := boot, enable_high := high\<rparr>)\<rparr>"

definition later_world :: world where
  "later_world =
     vbus_live_world\<lparr>registered := \<lparr>rdev_id = 2, reg_data = None\<rparr> # registered vbus_live_world,
       gpio_level := (gpio_level vbus_live_world)(42 \<mapsto> True),
       trace := trace vbus_live_world @ [EvRegister 2, EvGpioSet 42 True]\<rparr>"

section \<open>How probe runs\<close>

lemmas errno_defs = ENOMEM_def EBUSY_def ENODEV_def EINVAL_def EPROBE_DEFER_def MAX_ERRNO_def IS_ERR_VALUE_def

lemmas flag_defs = GPIOF_DIR_OUT_def GPIOF_DIR_IN_def GPIOF_INIT_LOW_def GPIOF_INIT_HIGH_def GPIOF_OUT_INIT_LOW_def GPIOF_OUT_INIT_HIGH_def

lemma le_sum_list_nat: "(x::nat) \<in> set xs \<Longrightarrow> x \<le> sum_list xs"
  by (induction xs) auto

lemma fresh_notin: "fresh xs \<notin> set xs"
proof
  assume "fresh xs \<in> set xs"
  then have "fresh xs \<le> sum_list xs" by (rule le_sum_list_nat)
  then show False by (simp add: fresh_def)
qed

lemma init_level: "gpio_init_level (GPIOF_DIR_OUT OR probe_ena_gpio_flags config) =
   Some (enabled_at_boot config = enable_high config)"
  by (simp add: gpio_init_level_def probe_ena_gpio_flags_def flag_defs zero_cfg_def)

lemma set_reg_data_fresh:
  "set_reg_data (w\<lparr>registered := \<lparr>rdev_id = fresh (map rdev_id (registered w)), reg_data = x\<rparr> # registered w, trace := t\<rparr>)
      (fresh (map rdev_id (registered w))) drv
   = w\<lparr>registered := \<lparr>rdev_id = fresh (map rdev_id (registered w)), reg_data = Some drv\<rparr> # registered w, trace := t\<rparr>"
proof -
  have "map (\<lambda>r. if rdev_id r = fresh (map rdev_id (registered w)) then r\<lparr>reg_data := Some drv\<rparr> else r) (registered w) = registered w"
    using fresh_notin [of "map rdev_id (registered w)"]
    by (intro map_idI) force
  then show ?thesis by (simp add: set_reg_data_def)
qed

lemma probe_register_fail:
  "IS_ERR_VALUE (register_err w) \<Longrightarrow>
   probe_register w pdev config drv cfg = err_input w pdev drv (register_err w)"
  by (simp add: probe_register_def regulator_register_def)

lemma probe_register_ok:
  "\<not> IS_ERR_VALUE (register_err w) \<Longrightarrow>
   probe_register w pdev config drv cfg =
     (0, pdev\<lparr>driver_data := Some (drv\<lparr>data_dev := Some (fresh (map rdev_id (registered w)))\<rparr>)\<rparr>,
      w\<lparr>registered := \<lparr>rdev_id = fresh (map rdev_id (registered w)),
                          reg_data = Some (drv\<lparr>data_dev := Some (fresh (map rdev_id (registered w)))\<rparr>)\<rparr> # registered w,
        trace := trace w @ [EvRegister (fresh (map rdev_id (registered w)))]\<rparr>)"
  by (simp add: probe_register_def regulator_register_def set_reg_data_fresh Let_def)

lemma kfree_None [simp]: "kfree w None = w"
  by (simp add: kfree_def)

lemma kfree_live: "a \<in> set (live w) \<Longrightarrow>
   kfree w (Some (a, s)) = w\<lparr>live := removeAll a (live w), trace := trace w @ [EvKfree a]\<rparr>"
  by (simp add: kfree_def)

lemma probe_gpio_invalid:
  "\<not> gpio_is_valid w (gpio config) \<Longrightarrow>
   probe_gpio w pdev config drv = err_input w pdev drv (- EINVAL)"
  by (simp add: probe_gpio_def)

lemma probe_gpio_request_fails:
  "gpio_is_valid w (gpio config) \<Longrightarrow> gpio_owner w (gpio config) \<noteq> None \<or> gpio_request_err w \<noteq> 0 \<Longrightarrow>
   probe_gpio w pdev config drv =
     err_name w pdev drv (if gpio_owner w (gpio config) \<noteq> None then - EBUSY else gpio_request_err w)"
  by (auto simp add: probe_gpio_def gpio_request_one_def EBUSY_def)

lemma probe_gpio_acquired:
  "gpio_is_valid w (gpio config) \<Longrightarrow> gpio_owner w (gpio config) = None \<Longrightarrow> gpio_request_err w = 0 \<Longrightarrow>
   probe_gpio w pdev config drv =
     probe_register
       (w\<lparr>gpio_owner := (gpio_owner w)(gpio config \<mapsto> (case desc_name (desc drv) of None \<Rightarrow> [] | Some (a, s) \<Rightarrow> s)),
          gpio_level := (gpio_level w)(gpio config \<mapsto> (enabled_at_boot config = enable_high config)),
          trace := trace w @ [EvGpioRequest (gpio config) (enabled_at_boot config = enable_high config)]\<rparr>)
       pdev config
       (drv\<lparr>data_gpio := gpio config, ena_gpio_invert := \<not> enable_high config\<rparr>)
       (zero_cfg\<lparr>cfg_ena_gpio_invert := \<not> enable_high config,
                 cfg_ena_gpio_flags := probe_ena_gpio_flags config, cfg_ena_gpio := 0\<rparr>)"
  by (simp add: probe_gpio_def gpio_request_one_def init_level Let_def)

lemma probe_gpio_cases:
  obtains (invalid) "\<not> gpio_is_valid w (gpio config)"
  | (busy) "gpio_is_valid w (gpio config)" "gpio_owner w (gpio config) \<noteq> None \<or> gpio_request_err w \<noteq> 0"
  | (acquired) "gpio_is_valid w (gpio config)" "gpio_owner w (gpio config) = None" "gpio_request_err w = 0"
  by blast

lemma probe_gpio_success:
  assumes "probe_gpio w pdev config drv = (0, pdev', w')"
  shows "gpio_is_valid w (gpio config) \<and> gpio_owner w (gpio config) = None \<and>
     gpio_request_err w = 0 \<and> \<not> IS_ERR_VALUE (register_err w) \<and>
     pdev' = pdev\<lparr>driver_data := Some (drv\<lparr>data_gpio := gpio config, ena_gpio_invert := \<not> enable_high config,
                           data_dev := Some (fresh (map rdev_id (registered w)))\<rparr>)\<rparr> \<and>
     w' = w\<lparr>gpio_owner := (gpio_owner w)(gpio config \<mapsto> (case desc_name (desc drv) of None \<Rightarrow> [] | Some (a, s) \<Rightarrow> s)),
          gpio_level := (gpio_level w)(gpio config \<mapsto> (enabled_at_boot config = enable_high config)),
          registered := \<lparr>rdev_id = fresh (map rdev_id (registered w)),
                          reg_data = Some (drv\<lparr>data_gpio := gpio config, ena_gpio_invert := \<not> enable_high config,
                           data_dev := Some (fresh (map rdev_id (registered w)))\<rparr>)\<rparr> # registered w,
          trace := trace w @ [EvGpioRequest (gpio config) (enabled_at_boot config = enable_high config),
                              EvRegister (fresh (map rdev_id (registered w)))]\<rparr>"
proof (cases rule: probe_gpio_cases [of w config])
  case invalid
  with assms show ?thesis
    by (simp add: probe_gpio_invalid err_input_def err_name_def EINVAL_def)
next
  case busy
  with assms show ?thesis
    by (auto simp add: probe_gpio_request_fails err_name_def EBUSY_def split: if_splits)
next
  case acquired
  show ?thesis
  proof (cases "IS_ERR_VALUE (register_err w)")
    case True
    with assms acquired show ?thesis
      by (simp add: probe_gpio_acquired probe_register_fail err_input_def err_name_def IS_ERR_VALUE_def)
  next
    case False
    with assms acquired show ?thesis
      by (simp add: probe_gpio_acquired probe_register_ok)
  qed
qed

lemma removeAll_fresh [simp]: "removeAll (fresh xs) xs = xs"
  by (simp add: fresh_notin)

lemma fresh_fresh_neq [simp]: "fresh (fresh xs # xs) \<noteq> fresh xs" "fresh xs \<noteq> fresh (fresh xs # xs)"
  using fresh_notin [of "fresh xs # xs"] by auto

lemma fresh_fresh_notin [simp]: "fresh (fresh xs # xs) \<notin> set xs"
  using fresh_notin [of "fresh xs # xs"] by auto

lemma probe_gpio_failure:
  assumes run: "probe_gpio w pdev config drv = (ret, pdev', w')" and ret: "ret \<noteq> 0"
  obtains (invalid) "pdev' = pdev" "\<not> gpio_is_valid w (gpio config)" "ret = - EINVAL"
      "w' = kfree (kfree w (desc_supply_name (desc drv))) (desc_name (desc drv))"
    | (busy) "pdev' = pdev" "gpio_is_valid w (gpio config)"
      "gpio_owner w (gpio config) \<noteq> None \<or> gpio_request_err w \<noteq> 0"
      "ret = (if gpio_owner w (gpio config) \<noteq> None then - EBUSY else gpio_request_err w)"
      "w' = kfree w (desc_name (desc drv))"
    | (regfail) "pdev' = pdev" "gpio_is_valid w (gpio config)" "gpio_owner w (gpio config) = None"
      "gpio_request_err w = 0" "IS_ERR_VALUE (register_err w)" "ret = register_err w"
      "w' = kfree (kfree
               (w\<lparr>gpio_owner := (gpio_owner w)(gpio config \<mapsto>
                     (case desc_name (desc drv) of None \<Rightarrow> [] | Some (a, s) \<Rightarrow> s)),
                  gpio_level := (gpio_level w)(gpio config \<mapsto> (enabled_at_boot config = enable_high config)),
                  trace := trace w @ [EvGpioRequest (gpio config) (enabled_at_boot config = enable_high config)]\<rparr>)
               (desc_supply_name (desc drv))) (desc_name (desc drv))"
proof (cases rule: probe_gpio_cases [of w config])
  case invalid
  with run show ?thesis
    by (intro that(1)) (simp_all add: probe_gpio_invalid err_input_def err_name_def)
next
  case busy
  with run show ?thesis
    by (intro that(2)) (auto simp add: probe_gpio_request_fails err_name_def split: if_splits)
next
  case acquired
  show ?thesis
  proof (cases "IS_ERR_VALUE (register_err w)")
    case True
    with run acquired show ?thesis
      by (intro that(3)) (auto simp add: probe_gpio_acquired probe_register_fail err_input_def err_name_def)
  next
    case False
    with run acquired ret show ?thesis
      by (simp add: probe_gpio_acquired probe_register_ok)
  qed
qed

lemma alloc_fails_script: "\<not> alloc_succeeds w \<Longrightarrow> False \<in> set (alloc_script w)"
  by (cases "alloc_script w") (auto simp add: alloc_succeeds_def)

lemma probe_data_success:
  assumes "probe_data w pdev config = (0, pdev', w')"
  shows "supply_name config \<noteq> None \<and> gpio_is_valid w (gpio config) \<and> gpio_owner w (gpio config) = None \<and>
     gpio_request_err w = 0 \<and> \<not> IS_ERR_VALUE (register_err w) \<and>
     pdev' = pdev\<lparr>driver_data := Some (built_data w config)\<rparr> \<and>
     live w' = strings_live w config \<and>
     bad_frees w' = bad_frees w \<and>
     gpio_owner w' = (gpio_owner w)(gpio config \<mapsto> the (supply_name config)) \<and>
     gpio_level w' = (gpio_level w)(gpio config \<mapsto> (enabled_at_boot config = enable_high config)) \<and>
     registered w' = \<lparr>rdev_id = fresh (map rdev_id (registered w)), reg_data = Some (built_data w config)\<rparr>
                      # registered w \<and>
     trace w' = trace w @ [EvGpioRequest (gpio config) (enabled_at_boot config = enable_high config),
                           EvRegister (fresh (map rdev_id (registered w)))] \<and>
     arch_nr_gpios w' = arch_nr_gpios w"
  using assms unfolding probe_data_def probe_voltage_def devm_kzalloc_def kstrdup_def Let_def
  by (auto split: if_splits option.splits prod.splits dest!: probe_gpio_success
        simp: err_name_def ENOMEM_def alloc_step_def gpio_is_valid_def built_data_def zero_data_def strings_live_def)

lemma in_set_tl: "x \<in> set (tl xs) \<Longrightarrow> x \<in> set xs"
  by (cases xs) auto

lemma probe_data_reaches:
  assumes "probe_data w pdev config = (ret, pdev', w')"
  shows "(ret = - ENOMEM \<and> pdev' = pdev \<and> live w' = live w \<and> bad_frees w' = bad_frees w \<and>
          gpio_owner w' = gpio_owner w \<and> gpio_level w' = gpio_level w \<and>
          registered w' = registered w \<and> arch_nr_gpios w' = arch_nr_gpios w \<and>
          (supply_name config = None \<or> False \<in> set (alloc_script w)))
       \<or> (\<exists>w3. supply_name config \<noteq> None \<and>
            probe_gpio w3 pdev config (pre_data w config) = (ret, pdev', w') \<and>
            live w3 = strings_live w config \<and> bad_frees w3 = bad_frees w \<and>
            gpio_owner w3 = gpio_owner w \<and> gpio_level w3 = gpio_level w \<and>
            registered w3 = registered w \<and> arch_nr_gpios w3 = arch_nr_gpios w \<and>
            trace w3 = trace w \<and> gpio_request_err w3 = gpio_request_err w \<and>
            register_err w3 = register_err w)"
proof (cases "alloc_succeeds w")
  case False
  with assms alloc_fails_script [of w] show ?thesis
    by (auto simp add: probe_data_def devm_kzalloc_def alloc_step_def)
next
  case dev: True
  let ?w1 = "(alloc_step w)\<lparr>devres := Suc (devres w)\<rparr>"
  show ?thesis
  proof (cases "supply_name config")
    case None
    with assms dev show ?thesis
      by (auto simp add: probe_data_def devm_kzalloc_def kstrdup_def alloc_step_def)
  next
    case (Some nm)
    show ?thesis
    proof (cases "alloc_succeeds ?w1")
      case False
      then have "False \<in> set (tl (alloc_script w))"
        using alloc_fails_script [of ?w1] by (simp add: alloc_step_def)
      then have "False \<in> set (alloc_script w)"
        by (rule in_set_tl)
      with assms dev Some False show ?thesis
        by (auto simp add: probe_data_def devm_kzalloc_def kstrdup_def alloc_step_def)
    next
      case name: True
      show ?thesis
      proof (cases "input_supply config")
        case None
        with assms dev Some name have
          "probe_gpio ((alloc_step ?w1)\<lparr>live := fresh (live w) # live w\<rparr>) pdev config (pre_data w config)
             = (ret, pdev', w')"
          by (cases "microvolts config = 0")
             (simp_all add: probe_data_def devm_kzalloc_def kstrdup_def alloc_step_def
                probe_voltage_def pre_data_def zero_data_def Let_def)
        then show ?thesis
          using Some None
          by (intro disjI2 exI [of _ "(alloc_step ?w1)\<lparr>live := fresh (live w) # live w\<rparr>"])
             (simp add: alloc_step_def strings_live_def)
      next
        case sup: (Some s)
        let ?w2 = "(alloc_step ?w1)\<lparr>live := fresh (live w) # live w\<rparr>"
        show ?thesis
        proof (cases "alloc_succeeds ?w2")
          case False
          then have "False \<in> set (tl (tl (alloc_script w)))"
            using alloc_fails_script [of ?w2] by (simp add: alloc_step_def)
          then have "False \<in> set (alloc_script w)"
            by (blast dest: in_set_tl)
          with assms dev Some name sup False show ?thesis
            by (auto simp add: probe_data_def devm_kzalloc_def kstrdup_def alloc_step_def err_name_def
                  zero_data_def kfree_def)
        next
          case True
          with assms dev Some name sup have
            "probe_gpio ((alloc_step ?w2)\<lparr>live := fresh (fresh (live w) # live w) # fresh (live w) # live w\<rparr>)
                pdev config (pre_data w config) = (ret, pdev', w')"
            by (cases "microvolts config = 0")
               (simp_all add: probe_data_def devm_kzalloc_def kstrdup_def alloc_step_def
                  probe_voltage_def pre_data_def zero_data_def Let_def)
          then show ?thesis
            using Some sup
            by (intro disjI2 exI [of _ "(alloc_step ?w2)\<lparr>live := fresh (fresh (live w) # live w) # fresh (live w) # live w\<rparr>"])
               (simp add: alloc_step_def strings_live_def)
        qed
      qed
    qed
  qed
qed

lemma unwind_input:
  assumes "live w3 = strings_live w config"
  shows "live (kfree (kfree w3 (desc_supply_name (desc (pre_data w config))))
                 (desc_name (desc (pre_data w config)))) = live w"
    and "bad_frees (kfree (kfree w3 (desc_supply_name (desc (pre_data w config))))
                 (desc_name (desc (pre_data w config)))) = bad_frees w3"
  using assms
  by (cases "input_supply config"; simp add: kfree_def strings_live_def pre_data_def)+

lemma unwind_name:
  assumes "live w3 = strings_live w config"
  shows "live (kfree w3 (desc_name (desc (pre_data w config)))) =
           (case input_supply config of None \<Rightarrow> [] | Some s \<Rightarrow> [fresh (fresh (live w) # live w)]) @ live w"
    and "bad_frees (kfree w3 (desc_name (desc (pre_data w config)))) = bad_frees w3"
  using assms
  by (cases "input_supply config"; simp add: kfree_def strings_live_def pre_data_def)+

lemma kfree_frame [simp]:
  "gpio_owner (kfree w p) = gpio_owner w" "gpio_level (kfree w p) = gpio_level w"
  "registered (kfree w p) = registered w" "arch_nr_gpios (kfree w p) = arch_nr_gpios w"
  "gpio_request_err (kfree w p) = gpio_request_err w" "register_err (kfree w p) = register_err w"
  by (simp_all add: kfree_def split: option.splits prod.splits)

lemma desc_name_pre_data:
  "supply_name config \<noteq> None \<Longrightarrow>
   (case desc_name (desc (pre_data w config)) of None \<Rightarrow> [] | Some (a, s) \<Rightarrow> s) = the (supply_name config)"
  by (simp add: pre_data_def)

lemma probe_data_failure:
  assumes run: "probe_data w pdev config = (ret, pdev', w')" and ret: "ret \<noteq> 0"
  shows "pdev' = pdev \<and> registered w' = registered w \<and> bad_frees w' = bad_frees w \<and>
    ((ret = - ENOMEM \<and> (supply_name config = None \<or> False \<in> set (alloc_script w)) \<and>
        live w' = live w \<and> gpio_owner w' = gpio_owner w \<and> gpio_level w' = gpio_level w)
     \<or> (\<not> gpio_is_valid w (gpio config) \<and> ret = - EINVAL \<and>
        live w' = live w \<and> gpio_owner w' = gpio_owner w \<and> gpio_level w' = gpio_level w)
     \<or> (gpio_is_valid w (gpio config) \<and>
        (gpio_owner w (gpio config) \<noteq> None \<or> gpio_request_err w \<noteq> 0) \<and>
        ret = (if gpio_owner w (gpio config) \<noteq> None then - EBUSY else gpio_request_err w) \<and>
        live w' = (case input_supply config of None \<Rightarrow> []
                   | Some s \<Rightarrow> [fresh (fresh (live w) # live w)]) @ live w \<and>
        gpio_owner w' = gpio_owner w \<and> gpio_level w' = gpio_level w)
     \<or> (supply_name config \<noteq> None \<and> gpio_is_valid w (gpio config) \<and>
        gpio_owner w (gpio config) = None \<and> gpio_request_err w = 0 \<and>
        IS_ERR_VALUE (register_err w) \<and> ret = register_err w \<and> live w' = live w \<and>
        gpio_owner w' = (gpio_owner w)(gpio config \<mapsto> the (supply_name config)) \<and>
        gpio_level w' = (gpio_level w)(gpio config \<mapsto> (enabled_at_boot config = enable_high config))))"
proof -
  from probe_data_reaches [OF run]
  consider (early) "ret = - ENOMEM" "pdev' = pdev" "live w' = live w" "bad_frees w' = bad_frees w"
      "gpio_owner w' = gpio_owner w" "gpio_level w' = gpio_level w" "registered w' = registered w"
      "supply_name config = None \<or> False \<in> set (alloc_script w)"
    | (gpio) w3 where "supply_name config \<noteq> None"
      "probe_gpio w3 pdev config (pre_data w config) = (ret, pdev', w')"
      "live w3 = strings_live w config"
      "bad_frees w3 = bad_frees w" "gpio_owner w3 = gpio_owner w" "gpio_level w3 = gpio_level w"
      "registered w3 = registered w" "arch_nr_gpios w3 = arch_nr_gpios w"
      "gpio_request_err w3 = gpio_request_err w" "register_err w3 = register_err w"
    by blast
  then show ?thesis
  proof cases
    case early
    then show ?thesis by simp
  next
    case gpio
    note nm = gpio(1) and gp = gpio(2) and lv = gpio(3) and fr = gpio(4-10)
    have valid: "gpio_is_valid w3 (gpio config) = gpio_is_valid w (gpio config)"
      using fr by (simp add: gpio_is_valid_def)
    let ?w4 = "w3\<lparr>gpio_owner := (gpio_owner w3)(gpio config \<mapsto>
                   (case desc_name (desc (pre_data w config)) of None \<Rightarrow> [] | Some (a, s) \<Rightarrow> s)),
                 gpio_level := (gpio_level w3)(gpio config \<mapsto> (enabled_at_boot config = enable_high config)),
                 trace := trace w3 @ [EvGpioRequest (gpio config) (enabled_at_boot config = enable_high config)]\<rparr>"
    from gp ret show ?thesis
    proof (cases rule: probe_gpio_failure)
      case invalid
      then show ?thesis
        using fr valid unwind_input [OF lv] by simp
    next
      case busy
      then show ?thesis
        using fr valid unwind_name [OF lv] by simp
    next
      case regfail
      have lv4: "live ?w4 = strings_live w config"
        using lv by simp
      show ?thesis
        using regfail fr valid nm unwind_input [OF lv4] desc_name_pre_data [OF nm, of w] by simp
    qed
  qed
qed

lemma of_get_config_frame:
  assumes "of_get_mv_vbus_config w np = (r, w1)"
  shows "live w1 = live w" "bad_frees w1 = bad_frees w" "gpio_owner w1 = gpio_owner w"
    "gpio_level w1 = gpio_level w" "registered w1 = registered w"
    "arch_nr_gpios w1 = arch_nr_gpios w" "gpio_request_err w1 = gpio_request_err w"
    "register_err w1 = register_err w" "trace w1 = trace w"
    "alloc_script w1 = tl (alloc_script w)"
  using assms
  by (auto simp add: of_get_mv_vbus_config_def devm_kzalloc_def alloc_step_def Let_def
        split: if_splits option.splits)

lemma of_get_config_error:
  assumes "of_get_mv_vbus_config w np = (Inl e, w1)"
  shows "e = - ENOMEM \<or> e = - EINVAL \<or> e = - EPROBE_DEFER"
  using assms
  by (auto simp add: of_get_mv_vbus_config_def devm_kzalloc_def Let_def
        split: if_splits option.splits)

lemma probe_reaches:
  assumes run: "mv_vbus_reg_probe w pdev = (ret, pdev', w')"
  obtains (noconfig) "probed_config w pdev = None"
      "ret = - ENOMEM \<or> ret = - EINVAL \<or> ret = - EPROBE_DEFER" "pdev' = pdev"
      "live w' = live w" "bad_frees w' = bad_frees w" "gpio_owner w' = gpio_owner w"
      "gpio_level w' = gpio_level w" "registered w' = registered w"
    | (config) config w1 where "probed_config w pdev = Some config"
      "probe_data w1 pdev config = (ret, pdev', w')"
      "live w1 = live w" "bad_frees w1 = bad_frees w" "gpio_owner w1 = gpio_owner w"
      "gpio_level w1 = gpio_level w" "registered w1 = registered w"
      "arch_nr_gpios w1 = arch_nr_gpios w" "gpio_request_err w1 = gpio_request_err w"
      "register_err w1 = register_err w" "trace w1 = trace w"
      "set (alloc_script w1) \<subseteq> set (alloc_script w)"
proof (cases "of_node pdev")
  case None
  show ?thesis
  proof (cases "platform_data pdev")
    case pd: None
    with run None show ?thesis
      by (intro noconfig) (auto simp add: mv_vbus_reg_probe_def probed_config_def)
  next
    case (Some config)
    with run None show ?thesis
      by (intro config [of config w]) (auto simp add: mv_vbus_reg_probe_def probed_config_def)
  qed
next
  case (Some np)
  obtain r w1 where ex: "of_get_mv_vbus_config w np = (r, w1)"
    by (cases "of_get_mv_vbus_config w np")
  note fr = of_get_config_frame [OF ex]
  show ?thesis
  proof (cases r)
    case (Inl e)
    with run Some ex of_get_config_error [of w np e w1] fr show ?thesis
      by (intro noconfig) (auto simp add: mv_vbus_reg_probe_def probed_config_def)
  next
    case (Inr config)
    have "set (alloc_script w1) \<subseteq> set (alloc_script w)"
      using fr(10) by (auto dest: in_set_tl)
    with run Some ex fr Inr show ?thesis
      by (intro config [of config w1]) (auto simp add: mv_vbus_reg_probe_def probed_config_def)
  qed
qed

lemma probe_success:
  assumes run: "mv_vbus_reg_probe w pdev = (0, pdev', w')"
  obtains config where "probed_config w pdev = Some config" "supply_name config \<noteq> None"
    "gpio_is_valid w (gpio config)" "gpio_owner w (gpio config) = None"
    "gpio_request_err w = 0" "\<not> IS_ERR_VALUE (register_err w)"
    "pdev' = pdev\<lparr>driver_data := Some (built_data w config)\<rparr>"
    "live w' = strings_live w config" "bad_frees w' = bad_frees w"
    "gpio_owner w' = (gpio_owner w)(gpio config \<mapsto> the (supply_name config))"
    "gpio_level w' = (gpio_level w)(gpio config \<mapsto> (enabled_at_boot config = enable_high config))"
    "registered w' = \<lparr>rdev_id = fresh (map rdev_id (registered w)),
                       reg_data = Some (built_data w config)\<rparr> # registered w"
    "trace w' = trace w @ [EvGpioRequest (gpio config) (enabled_at_boot config = enable_high config),
                           EvRegister (fresh (map rdev_id (registered w)))]"
  using run
proof (cases rule: probe_reaches)
  case noconfig
  then show ?thesis by (auto simp add: ENOMEM_def EINVAL_def EPROBE_DEFER_def)
next
  case (config config w1)
  have built: "built_data w1 config = built_data w config"
    using config by (simp add: built_data_def cong: option.case_cong)
  have valid: "gpio_is_valid w1 (gpio config) = gpio_is_valid w (gpio config)"
    using config by (simp add: gpio_is_valid_def)
  have sl: "strings_live w1 config = strings_live w config"
    using config by (simp add: strings_live_def cong: option.case_cong)
  from probe_data_success [OF config(2)] config(1,3-11) show ?thesis
    by (intro that [of config]) (simp_all add: built valid sl)
qed

lemma probe_failure:
  assumes run: "mv_vbus_reg_probe w pdev = (ret, pdev', w')" and ret: "ret \<noteq> 0"
  obtains (early) "pdev' = pdev" "registered w' = registered w" "bad_frees w' = bad_frees w"
      "live w' = live w" "gpio_owner w' = gpio_owner w" "gpio_level w' = gpio_level w"
      "probed_config w pdev = None \<or> False \<in> set (alloc_script w) \<or>
         (\<exists>config. probed_config w pdev = Some config \<and> supply_name config = None)"
    | (invalid) config where "probed_config w pdev = Some config"
      "pdev' = pdev" "registered w' = registered w" "bad_frees w' = bad_frees w"
      "live w' = live w" "gpio_owner w' = gpio_owner w" "gpio_level w' = gpio_level w"
      "\<not> gpio_is_valid w (gpio config)" "ret = - EINVAL"
    | (busy) config where "probed_config w pdev = Some config"
      "pdev' = pdev" "registered w' = registered w" "bad_frees w' = bad_frees w"
      "live w' = (case input_supply config of None \<Rightarrow> []
                  | Some s \<Rightarrow> [fresh (fresh (live w) # live w)]) @ live w"
      "gpio_owner w' = gpio_owner w" "gpio_level w' = gpio_level w"
      "gpio_is_valid w (gpio config)"
      "gpio_owner w (gpio config) \<noteq> None \<or> gpio_request_err w \<noteq> 0"
      "ret = (if gpio_owner w (gpio config) \<noteq> None then - EBUSY else gpio_request_err w)"
    | (regfail) config where "probed_config w pdev = Some config"
      "pdev' = pdev" "registered w' = registered w" "bad_frees w' = bad_frees w"
      "live w' = live w"
      "gpio_owner w' = (gpio_owner w)(gpio config \<mapsto> the (supply_name config))"
      "gpio_level w' = (gpio_level w)(gpio config \<mapsto> (enabled_at_boot config = enable_high config))"
      "supply_name config \<noteq> None" "gpio_is_valid w (gpio config)"
      "gpio_owner w (gpio config) = None" "gpio_request_err w = 0"
      "IS_ERR_VALUE (register_err w)" "ret = register_err w"
  using run
proof (cases rule: probe_reaches)
  case noconfig
  then show ?thesis by (intro early) simp_all
next
  case (config config w1)
  have valid: "gpio_is_valid w1 (gpio config) = gpio_is_valid w (gpio config)"
    using config by (simp add: gpio_is_valid_def)
  from probe_data_failure [OF config(2) ret]
  have common: "pdev' = pdev" "registered w' = registered w" "bad_frees w' = bad_frees w"
    using config by simp_all
  from probe_data_failure [OF config(2) ret]
  consider
    (a) "ret = - ENOMEM" "supply_name config = None \<or> False \<in> set (alloc_script w1)"
        "live w' = live w1" "gpio_owner w' = gpio_owner w1" "gpio_level w' = gpio_level w1"
    | (b) "\<not> gpio_is_valid w1 (gpio config)" "ret = - EINVAL"
        "live w' = live w1" "gpio_owner w' = gpio_owner w1" "gpio_level w' = gpio_level w1"
    | (c) "gpio_is_valid w1 (gpio config)"
        "gpio_owner w1 (gpio config) \<noteq> None \<or> gpio_request_err w1 \<noteq> 0"
        "ret = (if gpio_owner w1 (gpio config) \<noteq> None then - EBUSY else gpio_request_err w1)"
        "live w' = (case input_supply config of None \<Rightarrow> []
                   | Some s \<Rightarrow> [fresh (fresh (live w1) # live w1)]) @ live w1"
        "gpio_owner w' = gpio_owner w1" "gpio_level w' = gpio_level w1"
    | (d) "supply_name config \<noteq> None" "gpio_is_valid w1 (gpio config)"
        "gpio_owner w1 (gpio config) = None" "gpio_request_err w1 = 0"
        "IS_ERR_VALUE (register_err w1)" "ret = register_err w1" "live w' = live w1"
        "gpio_owner w' = (gpio_owner w1)(gpio config \<mapsto> the (supply_name config))"
        "gpio_level w' = (gpio_level w1)(gpio config \<mapsto> (enabled_at_boot config = enable_high config))"
    by (elim conjE disjE) blast+
  then show ?thesis
  proof cases
    case a
    with config common show ?thesis by (intro early) auto
  next
    case b
    with config common valid show ?thesis by (intro invalid [of config]) simp_all
  next
    case c
    with config common valid show ?thesis
      by (intro busy [of config]) (simp_all cong: option.case_cong)
  next
    case d
    with config common valid show ?thesis by (intro regfail [of config]) simp_all
  qed
qed

lemmas example_defs = world0_def vbus_config_def vbus_pdev_def vbus_init_data_def vbus_node_def
  vbus_of_pdev_def vbus_data_def vbus_live_pdev_def vbus_live_world_def vbus_removed_world_def
  vin_pdev_def zero_volt_node_def zero_volt_pdev_def ranged_pdev_def defer_pdev_def
  table_pdev_def later_world_def

lemmas probe_eval = mv_vbus_reg_probe_def of_get_mv_vbus_config_def probe_data_def
  probe_voltage_def probe_gpio_def probe_register_def err_input_def err_name_def
  regulator_register_def gpio_request_one_def gpio_is_valid_def devm_kzalloc_def kstrdup_def
  kfree_def alloc_succeeds_def alloc_step_def fresh_def set_reg_data_def gpio_init_level_def
  probe_ena_gpio_flags_def zero_cfg_def zero_data_def zero_config_def probed_config_def
  errno_defs flag_defs Let_def

lemma filter_fresh: "filter (\<lambda>r. rdev_id r \<noteq> fresh (map rdev_id rs)) rs = rs"
  using fresh_notin [of "map rdev_id rs"] by (intro filter_True) force

lemma spec_initial_level_eq: "spec_initial_level a b = (a = b)"
  by (cases a; cases b) simp_all

lemma extract_ok:
  assumes "of_get_mv_vbus_config w np = (Inr config, w1)"
  shows "\<exists>idata. of_regulator_init_data np = Some idata \<and> min_uV idata = max_uV idata \<and>
     microvolts config = min_uV idata \<and> gpio config = of_named_gpio np \<and>
     enable_high config = of_enable_active_high np \<and> enabled_at_boot config = boot_on idata \<and>
     supply_name config = constraints_name idata \<and> input_supply config = None \<and>
     of_named_gpio np \<noteq> - ENODEV \<and> of_named_gpio np \<noteq> - EPROBE_DEFER"
  using assms
  by (auto simp add: of_get_mv_vbus_config_def devm_kzalloc_def Let_def zero_config_def
        split: if_splits option.splits)

lemma probe_vbus_pdev:
  "mv_vbus_reg_probe world0 vbus_pdev = (0, vbus_live_pdev, vbus_live_world)"
  by (simp add: probe_eval example_defs)

lemma probed_config_vbus_pdev: "probed_config world0 vbus_pdev = Some vbus_config"
  by (simp add: probed_config_def vbus_pdev_def)

lemma probe_vbus_of_pdev:
  "mv_vbus_reg_probe world0 vbus_of_pdev =
     (0, vbus_of_pdev\<lparr>driver_data := Some (vbus_data\<lparr>data_dev := Some 1\<rparr>)\<rparr>,
      vbus_live_world\<lparr>devres := 2\<rparr>)"
  by (simp add: probe_eval example_defs)

lemma trace_kfree:
  "trace (kfree w p) = trace w @ (case p of None \<Rightarrow> [] | Some (a, s) \<Rightarrow> [EvKfree a])"
  by (simp add: kfree_def split: option.splits prod.splits)

lemma probe_gpio_acquires:
  assumes pin: "gpio_is_valid w (gpio config)" "gpio_owner w (gpio config) = None"
      "gpio_request_err w = 0"
    and run: "probe_gpio w pdev config drv = (ret, pdev', w')"
  shows "gpio_owner w' =
           (gpio_owner w)(gpio config \<mapsto> (case desc_name (desc drv) of None \<Rightarrow> [] | Some (a, s) \<Rightarrow> s)) \<and>
         gpio_level w' = (gpio_level w)(gpio config \<mapsto> (enabled_at_boot config = enable_high config)) \<and>
         (\<exists>evs. trace w' = trace w @
            EvGpioRequest (gpio config) (enabled_at_boot config = enable_high config) # evs)"
proof (cases "IS_ERR_VALUE (register_err w)")
  case True
  with pin run have
    "w' = kfree (kfree
       (w\<lparr>gpio_owner := (gpio_owner w)(gpio config \<mapsto>
               (case desc_name (desc drv) of None \<Rightarrow> [] | Some (a, s) \<Rightarrow> s)),
          gpio_level := (gpio_level w)(gpio config \<mapsto> (enabled_at_boot config = enable_high config)),
          trace := trace w @ [EvGpioRequest (gpio config) (enabled_at_boot config = enable_high config)]\<rparr>)
       (desc_supply_name (desc drv))) (desc_name (desc drv))"
    by (auto simp add: probe_gpio_acquired probe_register_fail err_input_def err_name_def)
  then show ?thesis
    by (simp add: trace_kfree)
next
  case False
  with pin run show ?thesis
    by (auto simp add: probe_gpio_acquired probe_register_ok)
qed

section \<open>The claims\<close>

text \<open>
  C1: (as amended) when every allocation succeeds, the pin is valid and is acquired, and
  the framework answers the registration with an error code, probe returns that code, with
  both duplicated names freed (the live blocks are those from before, nothing is freed
  twice) and nothing registered; the pin is not released: it stays owned under the
  regulator's name.
\<close>

theorem probe_registration_failure:
  assumes cfg: "probed_config w pdev = Some config"
    and allocs: "False \<notin> set (alloc_script w)"
    and name: "supply_name config = Some nm"
    and pin: "gpio_is_valid w (gpio config)" "gpio_owner w (gpio config) = None"
      "gpio_request_err w = 0"
    and reg: "IS_ERR_VALUE (register_err w)"
  shows "\<exists>w'. mv_vbus_reg_probe w pdev = (register_err w, pdev, w') \<and>
     live w' = live w \<and> bad_frees w' = bad_frees w \<and> registered w' = registered w \<and>
     gpio_owner w' = (gpio_owner w)(gpio config \<mapsto> nm)"
proof -
  obtain ret pdev' w' where run: "mv_vbus_reg_probe w pdev = (ret, pdev', w')"
    by (cases "mv_vbus_reg_probe w pdev")
  have "ret \<noteq> 0"
  proof
    assume "ret = 0"
    with run have "mv_vbus_reg_probe w pdev = (0, pdev', w')" by simp
    then show False
      by (cases rule: probe_success) (use reg in simp)
  qed
  with run show ?thesis
  proof (cases rule: probe_failure)
    case early
    with cfg allocs name show ?thesis by auto
  next
    case (invalid config')
    with cfg pin show ?thesis by simp
  next
    case (busy config')
    with cfg pin show ?thesis by simp
  next
    case (regfail config')
    with cfg name run show ?thesis by simp
  qed
qed

theorem probe_registration_failure_witness:
  "\<exists>w'. mv_vbus_reg_probe (world0\<lparr>register_err := - EINVAL\<rparr>) vbus_pdev = (- 22, vbus_pdev, w') \<and>
     live w' = [] \<and> bad_frees w' = [] \<and> registered w' = [] \<and>
     gpio_owner w' 42 = Some ''vbus''"
  using probe_registration_failure [of "world0\<lparr>register_err := - EINVAL\<rparr>" vbus_pdev vbus_config
      "''vbus''"]
  by (auto simp add: probed_config_def vbus_pdev_def vbus_config_def world0_def gpio_is_valid_def
        errno_defs)

text \<open>
  C1 as stated fails: the framework refuses the registration of the "vbus" rail with
  \<open>- EINVAL\<close>; probe returns that code, and pin 42, free before, is owned by "vbus" afterwards.
\<close>

theorem probe_registration_failure_counterexample:
  "fst (mv_vbus_reg_probe (world0\<lparr>register_err := - EINVAL\<rparr>) vbus_pdev) = - EINVAL \<and>
   gpio_owner (world0\<lparr>register_err := - EINVAL\<rparr>) 42 = None \<and>
   gpio_owner (snd (snd (mv_vbus_reg_probe (world0\<lparr>register_err := - EINVAL\<rparr>) vbus_pdev))) 42
     = Some ''vbus''"
  by (simp add: probe_eval example_defs)

text \<open>
  C2: (as amended) for the instance that a successful probe has set up, remove returns 0 in
  every state of the kernel, and does, in this order: unregistration of the instance's own
  device, then \<open>kfree\<close> of the input-supply name (when there is one), then \<open>kfree\<close> of the
  name; the registry loses that device and no other, the two blocks are no longer live (and
  nothing is freed twice when they were), and the pin is not released: no pin changes owner
  or level, so the pin stays owned under the regulator's name. Run right after probe, remove
  leaves the registry and the live blocks as they were before probe.
\<close>

theorem remove_after_probe:
  assumes "mv_vbus_reg_probe w0 pdev0 = (0, pdev, w1)"
  shows "\<exists>drv h a nm.
     driver_data pdev = Some drv \<and> data_dev drv = Some h \<and> desc_name (desc drv) = Some (a, nm) \<and>
     gpio_owner w1 (data_gpio drv) = Some nm \<and>
     (\<forall>w. \<exists>w'. mv_vbus_reg_remove w pdev = Some (0, w') \<and>
        trace w' = trace w @ [EvUnregister h] @
          (case desc_supply_name (desc drv) of None \<Rightarrow> [] | Some (b, s) \<Rightarrow> [EvKfree b]) @ [EvKfree a] \<and>
        registered w' = filter (\<lambda>r. rdev_id r \<noteq> h) (registered w) \<and>
        set (live w') = set (live w) -
          insert a (case desc_supply_name (desc drv) of None \<Rightarrow> {} | Some (b, s) \<Rightarrow> {b}) \<and>
        (insert a (case desc_supply_name (desc drv) of None \<Rightarrow> {} | Some (b, s) \<Rightarrow> {b})
           \<subseteq> set (live w) \<longrightarrow> bad_frees w' = bad_frees w) \<and>
        gpio_owner w' = gpio_owner w \<and> gpio_level w' = gpio_level w) \<and>
     (\<exists>w'. mv_vbus_reg_remove w1 pdev = Some (0, w') \<and>
        registered w' = registered w0 \<and> live w' = live w0 \<and> bad_frees w' = bad_frees w0 \<and>
        gpio_owner w' (data_gpio drv) = Some nm)"
  using assms
proof (cases rule: probe_success)
  case (1 config)
  then obtain nm where nm: "supply_name config = Some nm" by auto
  show ?thesis
  proof (cases "input_supply config")
    case None
    with 1 nm show ?thesis
      by (auto simp add: mv_vbus_reg_remove_def regulator_unregister_def kfree_def built_data_def
            strings_live_def filter_fresh Let_def)
  next
    case (Some s)
    with 1 nm show ?thesis
      by (auto simp add: mv_vbus_reg_remove_def regulator_unregister_def kfree_def built_data_def
            strings_live_def filter_fresh Let_def)
  qed
qed

theorem remove_after_probe_witness:
  "(\<exists>w'. mv_vbus_reg_remove later_world vbus_live_pdev = Some (0, w') \<and>
      trace w' = trace later_world @ [EvUnregister 1, EvKfree 1] \<and>
      registered w' = [\<lparr>rdev_id = 2, reg_data = None\<rparr>] \<and>
      set (live w') = {} \<and> bad_frees w' = [] \<and>
      gpio_owner w' 42 = Some ''vbus'' \<and> gpio_level w' 42 = Some True) \<and>
   (\<exists>w'. mv_vbus_reg_remove vbus_live_world vbus_live_pdev = Some (0, w') \<and>
      registered w' = [] \<and> live w' = [] \<and> bad_frees w' = [] \<and>
      gpio_owner w' 42 = Some ''vbus'')"
proof -
  from remove_after_probe [OF probe_vbus_pdev]
  obtain drv h a nm where d: "driver_data vbus_live_pdev = Some drv" "data_dev drv = Some h"
      "desc_name (desc drv) = Some (a, nm)"
    and gen: "\<forall>w. \<exists>w'. mv_vbus_reg_remove w vbus_live_pdev = Some (0, w') \<and>
        trace w' = trace w @ [EvUnregister h] @
          (case desc_supply_name (desc drv) of None \<Rightarrow> [] | Some (b, s) \<Rightarrow> [EvKfree b]) @ [EvKfree a] \<and>
        registered w' = filter (\<lambda>r. rdev_id r \<noteq> h) (registered w) \<and>
        set (live w') = set (live w) -
          insert a (case desc_supply_name (desc drv) of None \<Rightarrow> {} | Some (b, s) \<Rightarrow> {b}) \<and>
        (insert a (case desc_supply_name (desc drv) of None \<Rightarrow> {} | Some (b, s) \<Rightarrow> {b})
           \<subseteq> set (live w) \<longrightarrow> bad_frees w' = bad_frees w) \<and>
        gpio_owner w' = gpio_owner w \<and> gpio_level w' = gpio_level w"
    and here: "\<exists>w'. mv_vbus_reg_remove vbus_live_world vbus_live_pdev = Some (0, w') \<and>
        registered w' = registered world0 \<and> live w' = live world0 \<and>
        bad_frees w' = bad_frees world0 \<and> gpio_owner w' (data_gpio drv) = Some nm"
    by blast
  from d have drv: "drv = vbus_data"
    by (simp add: vbus_live_pdev_def)
  from gen [rule_format, of later_world] drv d
  have first: "\<exists>w'. mv_vbus_reg_remove later_world vbus_live_pdev = Some (0, w') \<and>
      trace w' = trace later_world @ [EvUnregister 1, EvKfree 1] \<and>
      registered w' = [\<lparr>rdev_id = 2, reg_data = None\<rparr>] \<and>
      set (live w') = {} \<and> bad_frees w' = [] \<and>
      gpio_owner w' 42 = Some ''vbus'' \<and> gpio_level w' 42 = Some True"
    by (auto simp add: vbus_data_def later_world_def vbus_live_world_def world0_def)
  from here drv d
  have second: "\<exists>w'. mv_vbus_reg_remove vbus_live_world vbus_live_pdev = Some (0, w') \<and>
      registered w' = [] \<and> live w' = [] \<and> bad_frees w' = [] \<and>
      gpio_owner w' 42 = Some ''vbus''"
    by (auto simp add: vbus_data_def world0_def)
  from first second show ?thesis by simp
qed

text \<open>
  C2 as stated fails: the "vbus" rail is probed and then removed; remove returns 0,
  and afterwards pin 42 is still owned by "vbus" and no release of it was ever done.
\<close>

theorem remove_after_probe_counterexample:
  "mv_vbus_reg_probe world0 vbus_pdev = (0, vbus_live_pdev, vbus_live_world) \<and>
   mv_vbus_reg_remove vbus_live_world vbus_live_pdev = Some (0, vbus_removed_world) \<and>
   gpio_owner vbus_removed_world 42 = Some ''vbus'' \<and>
   EvGpioFree 42 \<notin> set (trace vbus_removed_world)"
proof -
  have "mv_vbus_reg_remove vbus_live_world vbus_live_pdev = Some (0, vbus_removed_world)"
    by (simp add: mv_vbus_reg_remove_def regulator_unregister_def kfree_def vbus_live_pdev_def
          vbus_live_world_def vbus_removed_world_def vbus_data_def vbus_pdev_def world0_def Let_def)
  moreover have "gpio_owner vbus_removed_world 42 = Some ''vbus''"
    and "EvGpioFree 42 \<notin> set (trace vbus_removed_world)"
    by (simp_all add: vbus_removed_world_def vbus_live_world_def)
  ultimately show ?thesis
    using probe_vbus_pdev by simp
qed




text \<open>
  C4: when the configuration has a name, no allocation fails and the pin is valid, free
  and granted, probe requests the pin with flags whose initial level is that of the spec's
  table for the configuration's \<open>enabled_at_boot\<close> and \<open>enable_high\<close> (high when both are true
  or both are false, low when they differ); the request is the first thing probe does to the
  collaborators, and whether or not the registration that follows succeeds, the pin is owned
  under the regulator's name and stands at that level when probe returns.
\<close>

theorem initial_level_table:
  assumes cfg: "probed_config w pdev = Some config"
    and allocs: "False \<notin> set (alloc_script w)"
    and name: "supply_name config = Some nm"
    and pin: "gpio_is_valid w (gpio config)" "gpio_owner w (gpio config) = None"
      "gpio_request_err w = 0"
  shows "gpio_init_level (GPIOF_DIR_OUT OR probe_ena_gpio_flags config) =
       Some (spec_initial_level (enabled_at_boot config) (enable_high config)) \<and>
     (\<exists>ret pdev' w' evs. mv_vbus_reg_probe w pdev = (ret, pdev', w') \<and>
        gpio_owner w' (gpio config) = Some nm \<and>
        gpio_level w' (gpio config) =
          Some (spec_initial_level (enabled_at_boot config) (enable_high config)) \<and>
        trace w' = trace w @
          EvGpioRequest (gpio config) (spec_initial_level (enabled_at_boot config) (enable_high config))
          # evs)"
proof -
  obtain ret pdev' w' where run: "mv_vbus_reg_probe w pdev = (ret, pdev', w')"
    by (cases "mv_vbus_reg_probe w pdev")
  from run have "gpio_owner w' (gpio config) = Some nm \<and>
      gpio_level w' (gpio config) = Some (enabled_at_boot config = enable_high config) \<and>
      (\<exists>evs. trace w' = trace w @
         EvGpioRequest (gpio config) (enabled_at_boot config = enable_high config) # evs)"
  proof (cases rule: probe_reaches)
    case noconfig
    with cfg show ?thesis by simp
  next
    case (config config' w1)
    with cfg have same: "config' = config" by simp
    have allocs1: "False \<notin> set (alloc_script w1)"
      using allocs config(12) by blast
    from probe_data_reaches [OF config(2)] same name allocs1
    obtain w3 where w3: "probe_gpio w3 pdev config (pre_data w1 config) = (ret, pdev', w')"
      "gpio_owner w3 = gpio_owner w1" "gpio_level w3 = gpio_level w1"
      "arch_nr_gpios w3 = arch_nr_gpios w1" "trace w3 = trace w1"
      "gpio_request_err w3 = gpio_request_err w1"
      by auto
    have pin3: "gpio_is_valid w3 (gpio config)" "gpio_owner w3 (gpio config) = None"
      "gpio_request_err w3 = 0"
      using pin w3 config by (simp_all add: gpio_is_valid_def)
    from probe_gpio_acquires [OF pin3 w3(1)] w3 config name show ?thesis
      by (simp add: pre_data_def)
  qed
  with run show ?thesis
    by (auto simp add: init_level spec_initial_level_eq)
qed

theorem initial_level_table_witness:
  "(\<exists>ret pdev' w'. mv_vbus_reg_probe world0 (table_pdev True True) = (ret, pdev', w') \<and>
      gpio_owner w' 42 = Some ''vbus'' \<and> gpio_level w' 42 = Some True) \<and>
   (\<exists>ret pdev' w'. mv_vbus_reg_probe world0 (table_pdev True False) = (ret, pdev', w') \<and>
      gpio_owner w' 42 = Some ''vbus'' \<and> gpio_level w' 42 = Some False) \<and>
   (\<exists>ret pdev' w'. mv_vbus_reg_probe world0 (table_pdev False True) = (ret, pdev', w') \<and>
      gpio_owner w' 42 = Some ''vbus'' \<and> gpio_level w' 42 = Some False) \<and>
   (\<exists>ret pdev' w'. mv_vbus_reg_probe world0 (table_pdev False False) = (ret, pdev', w') \<and>
      gpio_owner w' 42 = Some ''vbus'' \<and> gpio_level w' 42 = Some True)"
proof -
  have row: "\<exists>ret pdev' w'. mv_vbus_reg_probe world0 (table_pdev boot high) = (ret, pdev', w') \<and>
      gpio_owner w' 42 = Some ''vbus'' \<and> gpio_level w' 42 = Some (spec_initial_level boot high)"
    for boot high
    using initial_level_table [of world0 "table_pdev boot high"
        "vbus_config\<lparr>enabled_at_boot := boot, enable_high := high\<rparr>" "''vbus''"]
    by (auto simp add: probed_config_def table_pdev_def vbus_pdev_def vbus_config_def world0_def
          gpio_is_valid_def)
  from row [of True True] row [of True False] row [of False True] row [of False False]
  show ?thesis by simp
qed

text \<open>
  C5: the device a successful probe registers carries \<open>ena_gpio_invert\<close> equal to the negation
  of the configuration's \<open>enable_high\<close>; on it, in any state of the kernel, enable returns 0
  and sets the configured pin to \<open>True XOR ena_gpio_invert\<close>, disable returns 0 and sets it to
  \<open>False XOR ena_gpio_invert\<close>; so enable drives the level \<open>enable_high\<close> and disable the
  opposite one.
\<close>

theorem enable_disable_polarity:
  assumes "mv_vbus_reg_probe w0 pdev0 = (0, pdev, w)"
  shows "\<exists>config rdev drv.
     probed_config w0 pdev0 = Some config \<and> rdev \<in> set (registered w) \<and>
     reg_data rdev = Some drv \<and> driver_data pdev = Some drv \<and>
     ena_gpio_invert drv = (\<not> enable_high config) \<and>
     (\<forall>w1. mv_vbus_enable_supply w1 rdev =
             (0, gpio_set_value_cansleep w1 (gpio config) (bool_to_uint (True \<noteq> ena_gpio_invert drv))) \<and>
           mv_vbus_disable_supply w1 rdev =
             (0, gpio_set_value_cansleep w1 (gpio config) (bool_to_uint (False \<noteq> ena_gpio_invert drv))) \<and>
           gpio_level (snd (mv_vbus_enable_supply w1 rdev)) (gpio config) = Some (enable_high config) \<and>
           gpio_level (snd (mv_vbus_disable_supply w1 rdev)) (gpio config) = Some (\<not> enable_high config))"
  using assms
proof (cases rule: probe_success)
  case (1 config)
  let ?rdev = "\<lparr>rdev_id = fresh (map rdev_id (registered w0)), reg_data = Some (built_data w0 config)\<rparr>"
  show ?thesis
    using 1
    by (intro exI [of _ config] exI [of _ ?rdev] exI [of _ "built_data w0 config"])
       (simp add: built_data_def mv_vbus_enable_supply_def mv_vbus_disable_supply_def
          mv_vbus_gpio_set_def gpio_set_value_cansleep_def bool_to_uint_def)
qed

theorem enable_disable_polarity_witness:
  "\<exists>rdev. rdev \<in> set (registered vbus_live_world) \<and>
     gpio_level (snd (mv_vbus_enable_supply vbus_live_world rdev)) 42 = Some True \<and>
     gpio_level (snd (mv_vbus_disable_supply vbus_live_world rdev)) 42 = Some False"
proof -
  from enable_disable_polarity [OF probe_vbus_pdev]
  obtain config rdev where "probed_config world0 vbus_pdev = Some config"
    "rdev \<in> set (registered vbus_live_world)"
    "gpio_level (snd (mv_vbus_enable_supply vbus_live_world rdev)) (gpio config) = Some (enable_high config)"
    "gpio_level (snd (mv_vbus_disable_supply vbus_live_world rdev)) (gpio config) = Some (\<not> enable_high config)"
    by blast
  then show ?thesis
    by (intro exI [of _ rdev]) (auto simp add: probed_config_vbus_pdev vbus_config_def)
qed

text \<open>
  C6: when the node has an init-data block and the configuration block can be allocated,
  \<open>of_get_mv_vbus_config\<close> fails with \<open>- EINVAL\<close> (the invalid voltage range) exactly when
  \<open>min_uV\<close> differs from \<open>max_uV\<close>; when they are equal and the GPIO is not deferred it returns
  a configuration whose \<open>microvolts\<close> is that voltage; and when that voltage V is positive,
  \<open>get_voltage\<close> on the device a successful probe of the node registers returns V.
\<close>

theorem fixed_voltage_extraction:
  assumes idata: "of_regulator_init_data np = Some idata" and alloc: "alloc_succeeds w"
  shows "((fst (of_get_mv_vbus_config w np) = Inl (- EINVAL)) = (min_uV idata \<noteq> max_uV idata)) \<and>
    (min_uV idata = max_uV idata \<and> of_named_gpio np \<noteq> - ENODEV \<and>
       of_named_gpio np \<noteq> - EPROBE_DEFER \<longrightarrow>
       (\<exists>config. fst (of_get_mv_vbus_config w np) = Inr config \<and>
          microvolts config = min_uV idata)) \<and>
    (\<forall>pdev pdev' w'. of_node pdev = Some np \<and> 0 < min_uV idata \<and>
       mv_vbus_reg_probe w pdev = (0, pdev', w') \<longrightarrow>
       (\<exists>rdev. rdev \<in> set (registered w') \<and> reg_data rdev = driver_data pdev' \<and>
          max_uV idata = min_uV idata \<and>
          mv_vbus_get_voltage rdev = Some (min_uV idata)))"
proof (intro conjI allI impI)
  show "(fst (of_get_mv_vbus_config w np) = Inl (- EINVAL)) = (min_uV idata \<noteq> max_uV idata)"
    using idata alloc
    by (simp add: of_get_mv_vbus_config_def devm_kzalloc_def Let_def errno_defs)
next
  assume "min_uV idata = max_uV idata \<and> of_named_gpio np \<noteq> - ENODEV \<and>
    of_named_gpio np \<noteq> - EPROBE_DEFER"
  then show "\<exists>config. fst (of_get_mv_vbus_config w np) = Inr config \<and>
      microvolts config = min_uV idata"
    using idata alloc
    by (auto simp add: of_get_mv_vbus_config_def devm_kzalloc_def Let_def zero_config_def
          split: option.splits)
next
  fix pdev pdev' w'
  assume a: "of_node pdev = Some np \<and> 0 < min_uV idata \<and>
    mv_vbus_reg_probe w pdev = (0, pdev', w')"
  then have "mv_vbus_reg_probe w pdev = (0, pdev', w')" by simp
  then show "\<exists>rdev. rdev \<in> set (registered w') \<and> reg_data rdev = driver_data pdev' \<and>
      max_uV idata = min_uV idata \<and> mv_vbus_get_voltage rdev = Some (min_uV idata)"
  proof (cases rule: probe_success)
    case (1 config)
    obtain r w1 where ex: "of_get_mv_vbus_config w np = (r, w1)"
      by (cases "of_get_mv_vbus_config w np")
    with 1(1) a have "r = Inr config"
      by (cases r) (simp_all add: probed_config_def)
    with ex extract_ok [of w np config w1] idata
    have v: "min_uV idata = max_uV idata" "microvolts config = min_uV idata"
      by auto
    let ?rdev = "\<lparr>rdev_id = fresh (map rdev_id (registered w)), reg_data = Some (built_data w config)\<rparr>"
    show ?thesis
      using 1 v a
      by (intro exI [of _ ?rdev]) (simp add: mv_vbus_get_voltage_def built_data_def)
  qed
qed

theorem fixed_voltage_extraction_witness:
  "fst (of_get_mv_vbus_config world0 vbus_node) \<noteq> Inl (- EINVAL) \<and>
   (\<exists>config. fst (of_get_mv_vbus_config world0 vbus_node) = Inr config \<and>
      microvolts config = 5000000) \<and>
   (\<exists>rdev. rdev \<in> set (registered (vbus_live_world\<lparr>devres := 2\<rparr>)) \<and>
      mv_vbus_get_voltage rdev = Some 5000000) \<and>
   fst (of_get_mv_vbus_config world0
          (vbus_node\<lparr>of_regulator_init_data := Some (vbus_init_data\<lparr>max_uV := 5250000\<rparr>)\<rparr>))
     = Inl (- EINVAL)"
proof -
  have a: "of_regulator_init_data vbus_node = Some vbus_init_data"
    and b: "alloc_succeeds world0"
    and c: "of_regulator_init_data
              (vbus_node\<lparr>of_regulator_init_data := Some (vbus_init_data\<lparr>max_uV := 5250000\<rparr>)\<rparr>)
            = Some (vbus_init_data\<lparr>max_uV := 5250000\<rparr>)"
    by (simp_all add: vbus_node_def alloc_succeeds_def world0_def)
  note t = fixed_voltage_extraction [OF a b]
  from t have p1: "fst (of_get_mv_vbus_config world0 vbus_node) \<noteq> Inl (- EINVAL)"
    by (simp add: vbus_init_data_def)
  from t have p2: "\<exists>config. fst (of_get_mv_vbus_config world0 vbus_node) = Inr config \<and>
      microvolts config = 5000000"
    by (simp add: vbus_init_data_def vbus_node_def errno_defs)
  from t have "of_node vbus_of_pdev = Some vbus_node \<and> 0 < min_uV vbus_init_data \<and>
      mv_vbus_reg_probe world0 vbus_of_pdev =
        (0, vbus_of_pdev\<lparr>driver_data := Some (vbus_data\<lparr>data_dev := Some 1\<rparr>)\<rparr>,
         vbus_live_world\<lparr>devres := 2\<rparr>) \<longrightarrow>
      (\<exists>rdev. rdev \<in> set (registered (vbus_live_world\<lparr>devres := 2\<rparr>)) \<and>
         reg_data rdev = driver_data (vbus_of_pdev\<lparr>driver_data := Some (vbus_data\<lparr>data_dev := Some 1\<rparr>)\<rparr>) \<and>
         max_uV vbus_init_data = min_uV vbus_init_data \<and>
         mv_vbus_get_voltage rdev = Some (min_uV vbus_init_data))"
    by blast
  with probe_vbus_of_pdev have p3: "\<exists>rdev. rdev \<in> set (registered (vbus_live_world\<lparr>devres := 2\<rparr>)) \<and>
      mv_vbus_get_voltage rdev = Some 5000000"
    by (auto simp add: vbus_of_pdev_def vbus_init_data_def)
  from fixed_voltage_extraction [OF c b] have p4:
    "fst (of_get_mv_vbus_config world0
          (vbus_node\<lparr>of_regulator_init_data := Some (vbus_init_data\<lparr>max_uV := 5250000\<rparr>)\<rparr>))
     = Inl (- EINVAL)"
    by (simp add: vbus_init_data_def)
  from p1 p2 p3 p4 show ?thesis by simp
qed

text \<open>
  C7: when extraction reaches the GPIO lookup (the configuration block is allocated, the
  init data is there, the voltage is fixed) and the lookup answers \<open>- ENODEV\<close> or
  \<open>- EPROBE_DEFER\<close>, extraction and probe fail with \<open>- EPROBE_DEFER\<close>, a code different from
  the fatal ones (\<open>- ENOMEM\<close>, \<open>- EINVAL\<close>, \<open>- EBUSY\<close>); no pin has changed owner or level, no
  string is allocated, nothing is registered and nothing was done to the collaborators. The
  one block allocated is the device-managed configuration, which the driver core releases.
\<close>

theorem defer_probe:
  assumes "of_node pdev = Some np" and "of_regulator_init_data np = Some idata"
    and "min_uV idata = max_uV idata" and "alloc_succeeds w"
    and "of_named_gpio np = - ENODEV \<or> of_named_gpio np = - EPROBE_DEFER"
  shows "fst (of_get_mv_vbus_config w np) = Inl (- EPROBE_DEFER) \<and>
    (\<exists>w'. mv_vbus_reg_probe w pdev = (- EPROBE_DEFER, pdev, w') \<and>
       gpio_owner w' = gpio_owner w \<and> gpio_level w' = gpio_level w \<and> live w' = live w \<and>
       bad_frees w' = bad_frees w \<and> registered w' = registered w \<and> trace w' = trace w) \<and>
    - EPROBE_DEFER \<noteq> - ENOMEM \<and> - EPROBE_DEFER \<noteq> - EINVAL \<and> - EPROBE_DEFER \<noteq> - EBUSY \<and>
    - EPROBE_DEFER \<noteq> (0::int)"
  using assms
  by (auto simp add: mv_vbus_reg_probe_def of_get_mv_vbus_config_def devm_kzalloc_def Let_def
        alloc_step_def errno_defs)

theorem defer_probe_witness:
  "\<exists>w'. mv_vbus_reg_probe world0 defer_pdev = (- 517, defer_pdev, w') \<and>
     gpio_owner w' 42 = None \<and> live w' = [] \<and> registered w' = [] \<and> trace w' = []"
  using defer_probe [of defer_pdev "vbus_node\<lparr>of_named_gpio := - EPROBE_DEFER\<rparr>" vbus_init_data world0]
  by (auto simp add: defer_pdev_def vbus_of_pdev_def vbus_node_def vbus_init_data_def
        alloc_succeeds_def world0_def EPROBE_DEFER_def)

text \<open>
  C8: (as amended) probe fails, registers nothing and leaves the platform device unchanged
  whenever the configuration's pin is invalid (also the pin a node names), or the node's
  init data has \<open>min_uV\<close> different from \<open>max_uV\<close>.
\<close>

theorem probe_rejects_invalid_pin_and_range:
  assumes run: "mv_vbus_reg_probe w pdev = (ret, pdev', w')"
    and bad: "(\<exists>config. probed_config w pdev = Some config \<and> \<not> gpio_is_valid w (gpio config)) \<or>
       (\<exists>np. of_node pdev = Some np \<and> \<not> gpio_is_valid w (of_named_gpio np)) \<or>
       (\<exists>np idata. of_node pdev = Some np \<and> of_regulator_init_data np = Some idata \<and>
          min_uV idata \<noteq> max_uV idata)"
  shows "ret \<noteq> 0 \<and> registered w' = registered w \<and> pdev' = pdev"
proof -
  have ret: "ret \<noteq> 0"
  proof
    assume "ret = 0"
    with run have "mv_vbus_reg_probe w pdev = (0, pdev', w')" by simp
    then show False
    proof (cases rule: probe_success)
      case (1 config)
      show False
      proof (cases "of_node pdev")
        case None
        with bad 1 show False by auto
      next
        case (Some np)
        obtain r w1 where ex: "of_get_mv_vbus_config w np = (r, w1)"
          by (cases "of_get_mv_vbus_config w np")
        with 1(1) Some have "r = Inr config"
          by (cases r) (simp_all add: probed_config_def)
        with ex extract_ok [of w np config w1] bad 1 Some show False
          by auto
      qed
    qed
  qed
  from run ret have "registered w' = registered w \<and> pdev' = pdev"
    by (cases rule: probe_failure) simp_all
  with ret show ?thesis by simp
qed

theorem probe_rejects_invalid_pin_and_range_witness:
  "fst (mv_vbus_reg_probe world0 (vbus_pdev\<lparr>platform_data := Some (vbus_config\<lparr>gpio := 300\<rparr>)\<rparr>)) \<noteq> 0 \<and>
   registered (snd (snd (mv_vbus_reg_probe world0
       (vbus_pdev\<lparr>platform_data := Some (vbus_config\<lparr>gpio := 300\<rparr>)\<rparr>)))) = []"
proof -
  let ?pdev = "vbus_pdev\<lparr>platform_data := Some (vbus_config\<lparr>gpio := 300\<rparr>)\<rparr>"
  obtain ret pdev' w' where run: "mv_vbus_reg_probe world0 ?pdev = (ret, pdev', w')"
    by (cases "mv_vbus_reg_probe world0 ?pdev")
  have "\<exists>config. probed_config world0 ?pdev = Some config \<and> \<not> gpio_is_valid world0 (gpio config)"
    by (simp add: probed_config_def vbus_pdev_def gpio_is_valid_def world0_def)
  then have "ret \<noteq> 0 \<and> registered w' = registered world0 \<and> pdev' = ?pdev"
    by (intro probe_rejects_invalid_pin_and_range [OF run]) simp
  with run show ?thesis
    by (simp add: world0_def)
qed

text \<open>
  C8 as stated fails: a node whose voltage range is 0 to 0 is extracted to a
  configuration with \<open>microvolts = 0\<close>, probe returns 0 and the device registered stores the
  voltage 0; platform data whose constraints span 0 to 5 V is registered as well.
\<close>

theorem probe_rejects_invalid_pin_and_range_counterexample:
  "fst (of_get_mv_vbus_config world0 zero_volt_node) =
     Inr (vbus_config\<lparr>microvolts := 0,
            init_data := Some (vbus_init_data\<lparr>min_uV := 0, max_uV := 0, apply_uV := False\<rparr>)\<rparr>) \<and>
   fst (mv_vbus_reg_probe world0 zero_volt_pdev) = 0 \<and>
   map (\<lambda>rdev. map_option data_microvolts (reg_data rdev))
     (registered (snd (snd (mv_vbus_reg_probe world0 zero_volt_pdev)))) = [Some 0] \<and>
   fst (mv_vbus_reg_probe world0 ranged_pdev) = 0 \<and>
   length (registered (snd (snd (mv_vbus_reg_probe world0 ranged_pdev)))) = 1"
  by (simp add: probe_eval example_defs)

text \<open>
  C9: on a device with driver data, \<open>list_voltage\<close> called through the table with
  selector 0 answers the stored voltage, with any other selector it answers \<open>- EINVAL\<close>, and
  the kernel state is unchanged in both cases.
\<close>

theorem list_voltage_selector:
  assumes "reg_data rdev = Some drv"
  shows "vbus_ops (ListVoltage 0) w rdev = Some (data_microvolts drv, w) \<and>
         (\<forall>n. n \<noteq> 0 \<longrightarrow> vbus_ops (ListVoltage n) w rdev = Some (- EINVAL, w))"
  using assms by (simp add: vbus_ops_def mv_vbus_list_voltage_def)

theorem list_voltage_selector_witness:
  "vbus_ops (ListVoltage 0) world0 \<lparr>rdev_id = 1, reg_data = Some (built_data world0 vbus_config)\<rparr>
     = Some (5000000, world0) \<and>
   vbus_ops (ListVoltage 3) world0 \<lparr>rdev_id = 1, reg_data = Some (built_data world0 vbus_config)\<rparr>
     = Some (- 22, world0)"
  using list_voltage_selector [of "\<lparr>rdev_id = 1, reg_data = Some (built_data world0 vbus_config)\<rparr>"
      "built_data world0 vbus_config" world0]
  by (simp add: built_data_def vbus_config_def EINVAL_def)

text \<open>
  C10: on a device whose stored voltage is 0, \<open>list_voltage\<close> with selector 0 answers 0
  as a result while \<open>get_voltage\<close> answers the error \<open>- EINVAL\<close>: only \<open>get_voltage\<close> rejects
  the zero voltage.
\<close>

theorem zero_voltage_queries:
  assumes "reg_data rdev = Some drv" and "data_microvolts drv = 0"
  shows "vbus_ops (ListVoltage 0) w rdev = Some (0, w) \<and>
         vbus_ops GetVoltage w rdev = Some (- EINVAL, w)"
  using assms by (simp add: vbus_ops_def mv_vbus_list_voltage_def mv_vbus_get_voltage_def)

theorem zero_voltage_queries_witness:
  "vbus_ops (ListVoltage 0) world0 \<lparr>rdev_id = 1, reg_data = Some zero_data\<rparr> = Some (0, world0) \<and>
   vbus_ops GetVoltage world0 \<lparr>rdev_id = 1, reg_data = Some zero_data\<rparr> = Some (- 22, world0)"
  using zero_voltage_queries [of "\<lparr>rdev_id = 1, reg_data = Some zero_data\<rparr>" zero_data world0]
  by (simp add: zero_data_def EINVAL_def)

end
